theory Spec2Isabelle
  imports Complex_Main
begin

chapter \<open>The NDB and Jensen-Shannon evaluation of \<^verbatim>\<open>ndb.py\<close>\<close>

text \<open>
  The class \<^verbatim>\<open>NDB\<close> bins training samples by K-means, assigns query samples to the
  nearest bin center and compares the two bin distributions by a two-proportion z-test
  per bin and by the Jensen-Shannon divergence. The theory embeds the class method by
  method: the object is a record passed in and returned, a raised exception is \<open>Inl\<close>,
  the files and the two library calls with an outcome of their own (K-means, the random
  permutation) are explicit. Then it proves the properties of the specification.
\<close>

section \<open>Values of numpy arrays\<close>

text \<open>
  The arrays of \<^verbatim>\<open>ndb.py\<close> hold IEEE doubles. A finite double is modelled by the real
  number it stands for (arithmetic is exact: no rounding, no overflow, a single zero that
  behaves as \<open>+0.0\<close>); the three non-finite doubles are kept, because numpy does not raise
  on a division by zero, a square root or a logarithm of a negative number, or the mean of
  an empty slice: it warns and goes on with \<open>inf\<close> or \<open>nan\<close>.
\<close>

datatype npfloat = Fin real | PosInf | NegInf | NaN

datatype py_error =
    AssertionError
  | ValueError
  | IndexError
  | ZeroDivisionError
  | AttributeError
  | TypeError
  | UnpicklingError
  | KMeansError

fun isfinite :: "npfloat \<Rightarrow> bool" where
  "isfinite (Fin _) = True"
| "isfinite _ = False"

fun isnan :: "npfloat \<Rightarrow> bool" where
  "isnan NaN = True"
| "isnan _ = False"

fun sign_of :: "npfloat \<Rightarrow> real" where
  "sign_of (Fin a) = sgn a"
| "sign_of PosInf = 1"
| "sign_of NegInf = - 1"
| "sign_of NaN = 0"

definition inf_of_sign :: "real \<Rightarrow> npfloat" where
  "inf_of_sign s = (if 0 < s then PosInf else if s < 0 then NegInf else NaN)"

fun np_neg :: "npfloat \<Rightarrow> npfloat" where
  "np_neg (Fin a) = Fin (- a)"
| "np_neg PosInf = NegInf"
| "np_neg NegInf = PosInf"
| "np_neg NaN = NaN"

fun np_abs :: "npfloat \<Rightarrow> npfloat" where
  "np_abs (Fin a) = Fin \<bar>a\<bar>"
| "np_abs PosInf = PosInf"
| "np_abs NegInf = PosInf"
| "np_abs NaN = NaN"

fun np_add :: "npfloat \<Rightarrow> npfloat \<Rightarrow> npfloat" where
  "np_add (Fin a) (Fin b) = Fin (a + b)"
| "np_add NaN _ = NaN"
| "np_add _ NaN = NaN"
| "np_add PosInf NegInf = NaN"
| "np_add NegInf PosInf = NaN"
| "np_add PosInf _ = PosInf"
| "np_add _ PosInf = PosInf"
| "np_add NegInf _ = NegInf"
| "np_add _ NegInf = NegInf"

definition np_sub :: "npfloat \<Rightarrow> npfloat \<Rightarrow> npfloat" where
  "np_sub x y = np_add x (np_neg y)"

fun np_mul :: "npfloat \<Rightarrow> npfloat \<Rightarrow> npfloat" where
  "np_mul (Fin a) (Fin b) = Fin (a * b)"
| "np_mul NaN _ = NaN"
| "np_mul _ NaN = NaN"
| "np_mul x y = inf_of_sign (sign_of x * sign_of y)"

fun np_div :: "npfloat \<Rightarrow> npfloat \<Rightarrow> npfloat" where
  "np_div (Fin a) (Fin b) = (if b = 0 then inf_of_sign (sgn a) else Fin (a / b))"
| "np_div NaN _ = NaN"
| "np_div _ NaN = NaN"
| "np_div (Fin a) _ = Fin 0"
| "np_div PosInf (Fin b) = (if b < 0 then NegInf else PosInf)"
| "np_div NegInf (Fin b) = (if b < 0 then PosInf else NegInf)"
| "np_div _ _ = NaN"

fun np_sqrt :: "npfloat \<Rightarrow> npfloat" where
  "np_sqrt (Fin a) = (if a < 0 then NaN else Fin (sqrt a))"
| "np_sqrt PosInf = PosInf"
| "np_sqrt _ = NaN"

fun np_log :: "npfloat \<Rightarrow> npfloat" where
  "np_log (Fin a) = (if a < 0 then NaN else if a = 0 then NegInf else Fin (ln a))"
| "np_log PosInf = PosInf"
| "np_log _ = NaN"

text \<open>Comparisons: every comparison with \<open>nan\<close> is false, except \<open>!=\<close>.\<close>

fun np_lt :: "npfloat \<Rightarrow> npfloat \<Rightarrow> bool" where
  "np_lt (Fin a) (Fin b) = (a < b)"
| "np_lt NaN _ = False"
| "np_lt _ NaN = False"
| "np_lt PosInf _ = False"
| "np_lt _ PosInf = True"
| "np_lt _ NegInf = False"
| "np_lt NegInf _ = True"

fun np_eq :: "npfloat \<Rightarrow> npfloat \<Rightarrow> bool" where
  "np_eq NaN _ = False"
| "np_eq _ NaN = False"
| "np_eq x y = (x = y)"

definition np_ne :: "npfloat \<Rightarrow> npfloat \<Rightarrow> bool" where
  "np_ne x y = (\<not> np_eq x y)"

definition np_gt :: "npfloat \<Rightarrow> npfloat \<Rightarrow> bool" where
  "np_gt x y = np_lt y x"

definition np_ge :: "npfloat \<Rightarrow> npfloat \<Rightarrow> bool" where
  "np_ge x y = (np_lt y x \<or> np_eq x y)"

text \<open>\<^verbatim>\<open>np.sum\<close> and \<^verbatim>\<open>np.mean\<close> of a one-dimensional array; the mean of an empty
  array is \<open>0/0 = nan\<close>.\<close>

primrec np_sum :: "npfloat list \<Rightarrow> npfloat" where
  "np_sum [] = Fin 0"
| "np_sum (x # xs) = np_add x (np_sum xs)"

definition np_mean :: "npfloat list \<Rightarrow> npfloat" where
  "np_mean xs = np_div (np_sum xs) (Fin (real (length xs)))"

text \<open>Broadcasting of two one-dimensional arrays: the shapes agree, or one of them has
  length 1 and is stretched.\<close>

definition broadcastable :: "'a list \<Rightarrow> 'b list \<Rightarrow> bool" where
  "broadcastable xs ys = (length xs = length ys \<or> length xs = 1 \<or> length ys = 1)"

definition bcast :: "('a \<Rightarrow> 'b \<Rightarrow> 'c) \<Rightarrow> 'a list \<Rightarrow> 'b list \<Rightarrow> 'c list" where
  "bcast f xs ys =
     (if length xs = length ys then map2 f xs ys
      else if length xs = 1 then map (f (hd xs)) ys
      else map (\<lambda>x. f x (hd ys)) xs)"

text \<open>Selection by a boolean mask of the same length, \<^verbatim>\<open>a[mask]\<close>.\<close>

definition mask_select :: "'a list \<Rightarrow> bool list \<Rightarrow> 'a list" where
  "mask_select xs msk = map fst (filter snd (zip xs msk))"

section \<open>The statistical primitives\<close>

text \<open>
  \<^verbatim>\<open>NDB.kl_divergence\<close>: three assertions, then the sum over the entries selected by
  \<^verbatim>\<open>p > 0\<close>. A mask whose length differs from the array it selects from raises
  \<^verbatim>\<open>IndexError\<close>; shapes that do not broadcast raise \<^verbatim>\<open>ValueError\<close>.
\<close>

definition kl_divergence :: "npfloat list \<Rightarrow> npfloat list \<Rightarrow> py_error + npfloat" where
  "kl_divergence p q =
     (if \<not> list_all isfinite p then Inl AssertionError
      else if \<not> list_all isfinite q then Inl AssertionError
      else if \<not> broadcastable p q then Inl ValueError
      else if list_ex (\<lambda>b. b)
                (bcast (\<lambda>a b. a \<and> b) (map (\<lambda>x. np_ne x (Fin 0)) p) (map (\<lambda>y. np_eq y (Fin 0)) q))
        then Inl AssertionError
      else
        let p_pos = map (\<lambda>x. np_gt x (Fin 0)) p in
        if length q \<noteq> length p_pos then Inl IndexError
        else
          let pp = mask_select p p_pos; qp = mask_select q p_pos
          in Inr (np_sum (map2 np_mul pp (map np_log (map2 np_div pp qp)))))"

text \<open>\<^verbatim>\<open>NDB.jensen_shannon_divergence\<close>.\<close>

definition jensen_shannon_divergence :: "npfloat list \<Rightarrow> npfloat list \<Rightarrow> py_error + npfloat" where
  "jensen_shannon_divergence p q =
     (if \<not> broadcastable p q then Inl ValueError
      else
        let m = map (\<lambda>x. np_mul x (Fin (1/2))) (bcast np_add p q) in
        case kl_divergence p m of
          Inl e \<Rightarrow> Inl e
        | Inr a \<Rightarrow>
            (case kl_divergence q m of
               Inl e \<Rightarrow> Inl e
             | Inr b \<Rightarrow> Inr (np_mul (Fin (1/2)) (np_add a b))))"

text \<open>
  \<^verbatim>\<open>scipy.stats.norm.cdf\<close> is not part of the repository: the standard normal
  distribution function on the finite values is a parameter \<open>Phi\<close>; at the infinities it
  takes its limits, and \<open>nan\<close> stays \<open>nan\<close>.
\<close>

fun norm_cdf :: "(real \<Rightarrow> real) \<Rightarrow> npfloat \<Rightarrow> npfloat" where
  "norm_cdf Phi (Fin x) = Fin (Phi x)"
| "norm_cdf Phi PosInf = Fin 1"
| "norm_cdf Phi NegInf = Fin 0"
| "norm_cdf Phi NaN = NaN"

text \<open>
  \<^verbatim>\<open>NDB.two_proportions_z_test\<close>. The sample sizes are Python integers (a row count), so
  \<^verbatim>\<open>1/n1\<close> raises \<^verbatim>\<open>ZeroDivisionError\<close> at 0, after the pooled proportion has been
  computed by numpy (which does not raise).
\<close>

definition two_proportions_z_test ::
  "(real \<Rightarrow> real) \<Rightarrow> npfloat list \<Rightarrow> nat \<Rightarrow> npfloat list \<Rightarrow> nat \<Rightarrow> real \<Rightarrow> py_error + bool list" where
  "two_proportions_z_test Phi p1 n1 p2 n2 significance_level =
     (if \<not> broadcastable p1 p2 then Inl ValueError
      else
        let p = map (\<lambda>x. np_div x (Fin (real (n1 + n2))))
                  (bcast np_add (map (\<lambda>x. np_mul x (Fin (real n1))) p1)
                                (map (\<lambda>x. np_mul x (Fin (real n2))) p2))
        in
        if n1 = 0 \<or> n2 = 0 then Inl ZeroDivisionError
        else
          let se = map (\<lambda>x. np_sqrt (np_mul (np_mul x (np_sub (Fin 1) x))
                                          (Fin (1 / real n1 + 1 / real n2)))) p;
              z = bcast np_div (bcast np_sub p1 p2) se;
              p_values = map (\<lambda>v. np_mul (Fin 2) (norm_cdf Phi (np_mul (Fin (- 1)) (np_abs v)))) z
          in Inr (map (\<lambda>v. np_lt v (Fin significance_level)) p_values))"

section \<open>Arrays of samples\<close>

text \<open>
  A two-dimensional array is the list of its rows, all of one length. The empty list
  stands for an array without rows, whose number of columns is read as 0.
  \<^verbatim>\<open>training_mean\<close> and \<^verbatim>\<open>training_std\<close> are a Python float until a fit with whitening
  stores one-dimensional arrays in them.
\<close>

type_synonym matrix = "npfloat list list"

datatype ndarr = Scalar npfloat | Vec "npfloat list"

definition ncols :: "matrix \<Rightarrow> nat" where
  "ncols X = (case X of [] \<Rightarrow> 0 | r # _ \<Rightarrow> length r)"

definition column :: "matrix \<Rightarrow> nat \<Rightarrow> npfloat list" where
  "column X j = map (\<lambda>r. r ! j) X"

text \<open>\<^verbatim>\<open>np.mean(X, axis=0)\<close> and \<^verbatim>\<open>np.std(X, axis=0)\<close> of an array with \<open>d\<close> columns;
  numpy computes the standard deviation as \<^verbatim>\<open>sqrt(mean(abs(x - x.mean())**2))\<close>.\<close>

definition mean_axis0 :: "nat \<Rightarrow> matrix \<Rightarrow> npfloat list" where
  "mean_axis0 d X = map (\<lambda>j. np_mean (column X j)) [0..<d]"

definition np_std :: "npfloat list \<Rightarrow> npfloat" where
  "np_std xs =
     (let m = np_mean xs
      in np_sqrt (np_mean (map (\<lambda>x. let a = np_abs (np_sub x m) in np_mul a a) xs)))"

definition std_axis0 :: "nat \<Rightarrow> matrix \<Rightarrow> npfloat list" where
  "std_axis0 d X = map (\<lambda>j. np_std (column X j)) [0..<d]"

text \<open>An array with \<open>d\<close> columns combined with a float or with a one-dimensional array.\<close>

fun shape_ok :: "nat \<Rightarrow> ndarr \<Rightarrow> bool" where
  "shape_ok d (Scalar s) = True"
| "shape_ok d (Vec v) = (d = length v \<or> d = 1 \<or> length v = 1)"

fun mat_op :: "(npfloat \<Rightarrow> npfloat \<Rightarrow> npfloat) \<Rightarrow> matrix \<Rightarrow> ndarr \<Rightarrow> matrix" where
  "mat_op f X (Scalar s) = map (map (\<lambda>x. f x s)) X"
| "mat_op f X (Vec v) = map (\<lambda>r. bcast f r v) X"

text \<open>\<^verbatim>\<open>(samples - self.training_mean) / self.training_std\<close>\<close>

definition whiten :: "ndarr \<Rightarrow> ndarr \<Rightarrow> matrix \<Rightarrow> py_error + matrix" where
  "whiten mu sigma X =
     (if \<not> shape_ok (ncols X) mu then Inl ValueError
      else
        let Y = mat_op np_sub X mu in
        if \<not> shape_ok (ncols Y) sigma then Inl ValueError
        else Inr (mat_op np_div Y sigma))"

text \<open>\<^verbatim>\<open>X[:, idx]\<close>\<close>

definition select_columns :: "matrix \<Rightarrow> nat list \<Rightarrow> matrix" where
  "select_columns X idx = map (\<lambda>r. map (\<lambda>j. r ! j) idx) X"

text \<open>\<^verbatim>\<open>np.unique(labels, return_counts=True)\<close>: the distinct values in increasing order,
  and how often each occurs.\<close>

definition unique_counts :: "nat list \<Rightarrow> nat list \<times> nat list" where
  "unique_counts labels =
     (let vals = sort (remdups labels) in (vals, map (count_list labels) vals))"

text \<open>\<^verbatim>\<open>np.argsort\<close>: the indices that put the keys in increasing order (here by a stable
  sort; numpy's default sort promises no order among equal keys).\<close>

definition argsort :: "int list \<Rightarrow> nat list" where
  "argsort keys = map snd (sort_key fst (zip keys [0..<length keys]))"

text \<open>\<^verbatim>\<open>np.linalg.norm(v, ord=2)\<close> of a row: \<^verbatim>\<open>sqrt(sum(abs(v)**2))\<close>.\<close>

definition np_norm :: "npfloat list \<Rightarrow> npfloat" where
  "np_norm v = np_sqrt (np_sum (map (\<lambda>x. let a = np_abs x in np_mul a a) v))"

text \<open>\<^verbatim>\<open>np.argmin\<close> of a non-empty row: a scan that moves to every entry that is not
  \<open>\<ge>\<close> the current minimum, and stops at the first \<open>nan\<close>.\<close>

fun argmin_scan :: "npfloat \<Rightarrow> nat \<Rightarrow> nat \<Rightarrow> npfloat list \<Rightarrow> nat" where
  "argmin_scan mp mi i [] = mi"
| "argmin_scan mp mi i (x # xs) =
     (if \<not> np_ge x mp then (if isnan x then i else argmin_scan x i (Suc i) xs)
      else argmin_scan mp mi (Suc i) xs)"

fun np_argmin :: "npfloat list \<Rightarrow> nat" where
  "np_argmin [] = 0"
| "np_argmin (x # xs) = (if isnan x then 0 else argmin_scan x 0 1 xs)"

section \<open>The NDB object, the snapshot file and the outside world\<close>

record results =
  res_NDB :: nat
  res_JS :: npfloat
  res_Proportions :: "npfloat list"
  res_N :: nat
  res_Bin_Assignment :: "nat list"
  res_Different_Bins :: "bool list"

record ndb =
  number_of_bins :: nat
  significance_level :: real
  whitening :: bool
  ndb_eps :: real
  training_mean :: ndarr
  training_std :: ndarr
  max_dims :: "nat option"
  bin_centers :: "matrix option"
  bin_proportions :: "npfloat list option"
  ref_sample_size :: "nat option"
  cached_results :: "string \<rightharpoonup> results"

text \<open>The dictionary pickled into the bins file: the five attributes as they are.\<close>

record bins_data =
  snap_proportions :: "npfloat list option"
  snap_centers :: "matrix option"
  snap_n :: "nat option"
  snap_mean :: ndarr
  snap_std :: ndarr

datatype file_content = Pickled bins_data | Unreadable

text \<open>
  What the object does not own: the files (by path), and a count of the runs of the
  clustering primitive. \<^verbatim>\<open>sklearn.cluster.KMeans\<close> and \<^verbatim>\<open>np.random.permutation\<close> are
  not part of the repository; they are parameters: \<open>kmeans_fit k X\<close> is the array
  \<^verbatim>\<open>labels_\<close> of a fit of \<open>X\<close> to \<open>k\<close> clusters, or the exception it raises.
\<close>

record world =
  files :: "string \<rightharpoonup> file_content"
  kmeans_runs :: nat

record env =
  kmeans_fit :: "nat \<Rightarrow> matrix \<Rightarrow> py_error + nat list"
  random_permutation :: "nat \<Rightarrow> nat list"

text \<open>A Python value used as a condition: \<^verbatim>\<open>None\<close> and the empty string are false.\<close>

fun truthy :: "string option \<Rightarrow> bool" where
  "truthy None = False"
| "truthy (Some s) = (s \<noteq> [])"

text \<open>\<^verbatim>\<open>NDB.__read_from_bins_file\<close>\<close>

definition read_from_bins_file :: "world \<Rightarrow> ndb \<Rightarrow> string option \<Rightarrow> py_error + bool \<times> ndb" where
  "read_from_bins_file w st bins_file =
     (case bins_file of
        None \<Rightarrow> Inr (False, st)
      | Some f \<Rightarrow>
          if \<not> truthy bins_file then Inr (False, st)
          else
            (case files w f of
               None \<Rightarrow> Inr (False, st)
             | Some Unreadable \<Rightarrow> Inl UnpicklingError
             | Some (Pickled bins) \<Rightarrow>
                 Inr (True, st\<lparr>bin_proportions := snap_proportions bins,
                                bin_centers := snap_centers bins,
                                ref_sample_size := snap_n bins,
                                training_mean := snap_mean bins,
                                training_std := snap_std bins\<rparr>)))"

text \<open>\<^verbatim>\<open>NDB.__write_to_bins_file\<close>\<close>

definition write_to_bins_file :: "world \<Rightarrow> ndb \<Rightarrow> string option \<Rightarrow> world" where
  "write_to_bins_file w st bins_file =
     (case bins_file of
        None \<Rightarrow> w
      | Some f \<Rightarrow>
          if \<not> truthy bins_file then w
          else w\<lparr>files := (files w)(f \<mapsto> Pickled
                   \<lparr>snap_proportions = bin_proportions st,
                    snap_centers = bin_centers st,
                    snap_n = ref_sample_size st,
                    snap_mean = training_mean st,
                    snap_std = training_std st\<rparr>)\<rparr>)"

text \<open>
  \<^verbatim>\<open>NDB.construct_bins\<close>, in three parts. \<open>organize_bins\<close> is the block under the
  comment \<^verbatim>\<open># Organize bins by size\<close>: from the \<open>k\<close> rows of \<^verbatim>\<open>bin_centers\<close> and the
  cluster labels to the stored proportions and centers (indexing a row that does not
  exist raises \<^verbatim>\<open>IndexError\<close>).
\<close>

definition organize_bins :: "nat \<Rightarrow> matrix \<Rightarrow> nat list \<Rightarrow> py_error + npfloat list \<times> matrix" where
  "organize_bins k centers labels =
     (let (label_vals, label_counts) = unique_counts labels;
          bin_order = argsort (map (\<lambda>c. - int c) label_counts)
      in
      if \<not> list_all (\<lambda>b. b < k) bin_order then Inl IndexError
      else Inr (map (\<lambda>c. np_div (Fin (real c)) (Fin (real (sum_list label_counts))))
                  (map (\<lambda>b. label_counts ! b) bin_order),
                map (\<lambda>b. centers ! b) bin_order))"

text \<open>
  \<open>fit_from_samples\<close> is the body of \<^verbatim>\<open>construct_bins\<close> after the early return: the
  whitening statistics, the choice of dimensions, the clustering, the bin centers and
  their order, and the write of the bins file. \<^verbatim>\<open>n//k\<close> raises
  \<^verbatim>\<open>ZeroDivisionError\<close> when \<open>k = 0\<close>; a mask of another length than the rows raises
  \<^verbatim>\<open>IndexError\<close>, and a mean of another width than a row of \<^verbatim>\<open>bin_centers\<close>
  \<^verbatim>\<open>ValueError\<close>. An exception ends the call with \<open>Inl\<close>; what the
  object had been assigned before the exception is not kept in the model.
\<close>

definition fit_from_samples ::
  "env \<Rightarrow> world \<Rightarrow> ndb \<Rightarrow> matrix \<Rightarrow> string option \<Rightarrow> py_error + world \<times> ndb" where
  "fit_from_samples e w st training_samples bins_file =
     (let n = length training_samples;
          d = ncols training_samples;
          k = number_of_bins st;
          st1 = (if whitening st
                 then st\<lparr>training_mean := Vec (mean_axis0 d training_samples),
                         training_std := Vec (map (\<lambda>s. np_add s (Fin (ndb_eps st)))
                                                (std_axis0 d training_samples))\<rparr>
                 else st);
          st2 = (if max_dims st1 = None \<and> 1000 < d
                 then st1\<lparr>max_dims := Some (d div 6)\<rparr> else st1)
      in
      case whiten (training_mean st2) (training_std st2) training_samples of
        Inl err \<Rightarrow> Inl err
      | Inr whitened_samples \<Rightarrow>
          let d_used = (case max_dims st2 of None \<Rightarrow> d | Some m \<Rightarrow> min d m);
              d_indices = random_permutation e d
          in
          if k = 0 then Inl ZeroDivisionError
          else if \<not> list_all (\<lambda>j. j < ncols whitened_samples) (take d_used d_indices)
            then Inl IndexError
          else
            (case kmeans_fit e k (select_columns whitened_samples (take d_used d_indices)) of
               Inl err \<Rightarrow> Inl err
             | Inr labels \<Rightarrow>
                 if length labels \<noteq> n then Inl IndexError
                 else if ncols whitened_samples \<noteq> d then Inl ValueError
                 else
                   let centers = map (\<lambda>i. mean_axis0 d
                                      (mask_select whitened_samples (map (\<lambda>l. l = i) labels)))
                                   [0..<k]
                   in
                   case organize_bins k centers labels of
                     Inl err \<Rightarrow> Inl err
                   | Inr (proportions, ordered_centers) \<Rightarrow>
                       let st3 = st2\<lparr>bin_proportions := Some proportions,
                                     bin_centers := Some ordered_centers,
                                     ref_sample_size := Some n\<rparr>
                       in Inr (write_to_bins_file (w\<lparr>kmeans_runs := Suc (kmeans_runs w)\<rparr>)
                                 st3 bins_file, st3)))"

definition construct_bins ::
  "env \<Rightarrow> world \<Rightarrow> ndb \<Rightarrow> matrix \<Rightarrow> string option \<Rightarrow> py_error + world \<times> ndb" where
  "construct_bins e w st training_samples bins_file =
     (case read_from_bins_file w st bins_file of
        Inl err \<Rightarrow> Inl err
      | Inr (True, st_r) \<Rightarrow> Inr (w, st_r)
      | Inr (False, _) \<Rightarrow> fit_from_samples e w st training_samples bins_file)"

text \<open>\<^verbatim>\<open>NDB.__init__\<close>\<close>

definition NDB_init ::
  "env \<Rightarrow> world \<Rightarrow> matrix option \<Rightarrow> nat \<Rightarrow> real \<Rightarrow> bool \<Rightarrow> nat option \<Rightarrow> string option
     \<Rightarrow> py_error + world \<times> ndb" where
  "NDB_init e w training_data k alpha wh md bins_file =
     (let st = \<lparr>number_of_bins = k, significance_level = alpha, whitening = wh,
                ndb_eps = 1 / 1000000,
                training_mean = Scalar (Fin 0), training_std = Scalar (Fin 1),
                max_dims = md, bin_centers = None, bin_proportions = None,
                ref_sample_size = None, cached_results = Map.empty\<rparr>
      in case training_data of
           None \<Rightarrow> Inr (w, st)
         | Some X \<Rightarrow> construct_bins e w st X bins_file)"

text \<open>\<^verbatim>\<open>NDB.__calculate_bin_proportions\<close>. The samples are arrays of floats, as the
  docstrings say, so the distance matrix \<open>D\<close> holds the norms as they are.\<close>

definition calculate_bin_proportions :: "ndb \<Rightarrow> matrix \<Rightarrow> py_error + npfloat list \<times> nat list" where
  "calculate_bin_proportions st samples =
     (case bin_centers st of
        None \<Rightarrow> Inl AttributeError
      | Some C \<Rightarrow>
          if ncols samples \<noteq> ncols C then Inl AssertionError
          else
            let n = length samples; k = length C in
            case whiten (training_mean st) (training_std st) samples of
              Inl err \<Rightarrow> Inl err
            | Inr whitened_samples \<Rightarrow>
                if \<not> list_all (\<lambda>c. shape_ok (ncols whitened_samples) (Vec c)) C
                  then Inl ValueError
                else
                  let D = map (\<lambda>x. map (\<lambda>c. np_norm (bcast np_sub x c)) C) whitened_samples in
                  if k = 0 then Inl ValueError
                  else
                    let labels = map np_argmin D;
                        (label_vals, label_counts) = unique_counts labels;
                        probs = foldl (\<lambda>acc (v, c). acc[v := np_div (Fin (real c)) (Fin (real n))])
                                  (replicate k (Fin 0)) (zip label_vals label_counts)
                    in Inr (probs, labels))"

text \<open>\<^verbatim>\<open>NDB.evaluate\<close>; the printing is left out.\<close>

definition evaluate ::
  "(real \<Rightarrow> real) \<Rightarrow> ndb \<Rightarrow> matrix \<Rightarrow> string option \<Rightarrow> py_error + results \<times> ndb" where
  "evaluate Phi st query_samples model_label =
     (let n = length query_samples in
      case calculate_bin_proportions st query_samples of
        Inl err \<Rightarrow> Inl err
      | Inr (query_bin_proportions, query_bin_assignments) \<Rightarrow>
          (case (bin_proportions st, ref_sample_size st) of
             (Some ref_proportions, Some ref_n) \<Rightarrow>
               (case two_proportions_z_test Phi ref_proportions ref_n query_bin_proportions n
                       (significance_level st) of
                  Inl err \<Rightarrow> Inl err
                | Inr different_bins \<Rightarrow>
                    (case jensen_shannon_divergence ref_proportions query_bin_proportions of
                       Inl err \<Rightarrow> Inl err
                     | Inr js \<Rightarrow>
                         let res = \<lparr>res_NDB = length (filter (\<lambda>b. b) different_bins),
                                    res_JS = js,
                                    res_Proportions = query_bin_proportions,
                                    res_N = n,
                                    res_Bin_Assignment = query_bin_assignments,
                                    res_Different_Bins = different_bins\<rparr>
                         in
                         case model_label of
                           None \<Rightarrow> Inr (res, st)
                         | Some l \<Rightarrow>
                             if truthy model_label
                             then Inr (res, st\<lparr>cached_results := (cached_results st)(l \<mapsto> res)\<rparr>)
                             else Inr (res, st)))
           | _ \<Rightarrow> Inl TypeError))"

section \<open>Notions used to state the properties\<close>

text \<open>The real number a finite value stands for.\<close>

fun fin_val :: "npfloat \<Rightarrow> real" where
  "fin_val (Fin a) = a"
| "fin_val _ = 0"

text \<open>Proportions in non-increasing order, compared as numpy compares them.\<close>

definition descending :: "npfloat list \<Rightarrow> bool" where
  "descending ps = (\<forall>i. Suc i < length ps \<longrightarrow> np_ge (ps ! i) (ps ! Suc i))"

text \<open>The file that \<^verbatim>\<open>__read_from_bins_file\<close> would open, if any.\<close>

definition snapshot_at :: "world \<Rightarrow> string option \<Rightarrow> file_content option" where
  "snapshot_at w bins_file =
     (case bins_file of None \<Rightarrow> None | Some f \<Rightarrow> if f = [] then None else files w f)"

text \<open>Every snapshot on file holds proportions, in non-increasing order (as every
  snapshot written by \<^verbatim>\<open>construct_bins\<close> does).\<close>

definition snapshots_descending :: "world \<Rightarrow> bool" where
  "snapshots_descending w =
     (\<forall>f bins. files w f = Some (Pickled bins) \<longrightarrow>
        (\<exists>ps. snap_proportions bins = Some ps \<and> descending ps))"

text \<open>The Euclidean distance of two real vectors.\<close>

definition l2_distance :: "real list \<Rightarrow> real list \<Rightarrow> real" where
  "l2_distance u v = sqrt (\<Sum>(x, y) \<leftarrow> zip u v. (x - y)\<^sup>2)"

text \<open>
  The two-proportion test of one bin in the words of the specification: pooled
  proportion, standard error, z-score, two-tailed p-value below the level.
\<close>

definition pooled_radicand :: "real \<Rightarrow> nat \<Rightarrow> real \<Rightarrow> nat \<Rightarrow> real" where
  "pooled_radicand p1 n1 p2 n2 =
     (let p = (p1 * real n1 + p2 * real n2) / real (n1 + n2)
      in p * (1 - p) * (1 / real n1 + 1 / real n2))"

definition z_test_spec :: "(real \<Rightarrow> real) \<Rightarrow> real \<Rightarrow> nat \<Rightarrow> real \<Rightarrow> nat \<Rightarrow> real \<Rightarrow> bool" where
  "z_test_spec Phi p1 n1 p2 n2 alpha =
     (let p = (p1 * real n1 + p2 * real n2) / real (n1 + n2);
          se = sqrt (p * (1 - p) * (1 / real n1 + 1 / real n2));
          z = (p1 - p2) / se
      in 2 * Phi (- \<bar>z\<bar>) < alpha)"

text \<open>One entry of \<^verbatim>\<open>two_proportions_z_test\<close>, through the same array operations.\<close>

definition z_entry :: "(real \<Rightarrow> real) \<Rightarrow> npfloat \<Rightarrow> nat \<Rightarrow> npfloat \<Rightarrow> nat \<Rightarrow> real \<Rightarrow> bool" where
  "z_entry Phi a n1 b n2 alpha =
     (let p = np_div (np_add (np_mul a (Fin (real n1))) (np_mul b (Fin (real n2))))
                (Fin (real (n1 + n2)));
          se = np_sqrt (np_mul (np_mul p (np_sub (Fin 1) p)) (Fin (1 / real n1 + 1 / real n2)));
          z = np_div (np_sub a b) se
      in np_lt (np_mul (Fin 2) (norm_cdf Phi (np_mul (Fin (- 1)) (np_abs z)))) (Fin alpha))"

text \<open>The standard normal distribution function, by its power series at 0.\<close>

definition std_normal_cdf :: "real \<Rightarrow> real" where
  "std_normal_cdf x =
     1 / 2 + (\<Sum>n. (- 1) ^ n * x ^ (2 * n + 1) / (2 ^ n * fact n * real (2 * n + 1))) / sqrt (2 * pi)"

text \<open>A matrix of finite values with rows of one length.\<close>

definition finite_matrix :: "matrix \<Rightarrow> bool" where
  "finite_matrix X = list_all (\<lambda>r. length r = ncols X \<and> list_all isfinite r) X"

text \<open>
  Concrete surroundings for the examples: a clustering primitive that answers with given
  labels, the identity permutation, and a world without files.
\<close>

definition example_env :: "nat list \<Rightarrow> env" where
  "example_env labels =
     \<lparr>kmeans_fit = (\<lambda>k X. Inr labels), random_permutation = (\<lambda>d. [0..<d])\<rparr>"

definition failing_env :: env where
  "failing_env = \<lparr>kmeans_fit = (\<lambda>k X. Inl KMeansError), random_permutation = (\<lambda>d. [0..<d])\<rparr>"

definition empty_world :: world where
  "empty_world = \<lparr>files = Map.empty, kmeans_runs = 0\<rparr>"

text \<open>
  A fitted object for the examples, as \<open>NDB_init\<close> builds it from the samples 0, 0, 4, 4
  in two clusters; two query samples, one of them half-way between the centers; and what
  \<open>evaluate\<close> returns for them.
\<close>

definition example_model :: ndb where
  "example_model =
     \<lparr>number_of_bins = 2, significance_level = 1 / 20, whitening = False,
      ndb_eps = 1 / 1000000,
      training_mean = Scalar (Fin 0), training_std = Scalar (Fin 1),
      max_dims = None, bin_centers = Some [[Fin 0], [Fin 4]],
      bin_proportions = Some [Fin (1 / 2), Fin (1 / 2)],
      ref_sample_size = Some 4, cached_results = Map.empty\<rparr>"

definition example_query :: matrix where
  "example_query = [[Fin 2], [Fin 6]]"

definition example_result :: results where
  "example_result =
     \<lparr>res_NDB = 0, res_JS = Fin 0, res_Proportions = [Fin (1 / 2), Fin (1 / 2)],
      res_N = 2, res_Bin_Assignment = [0, 1], res_Different_Bins = [False, False]\<rparr>"

section \<open>Properties of the statistical primitives\<close>

lemma isfinite_iff: "isfinite x \<longleftrightarrow> (\<exists>a. x = Fin a)"
  by (cases x) simp_all

lemma np_add_commute: "np_add x y = np_add y x"
  by (cases x; cases y) simp_all

lemma bcast_commute:
  assumes "\<And>x y. f x y = f y x" and "length xs = length ys"
  shows "bcast f xs ys = bcast f ys xs"
  using assms(2) by (induction xs ys rule: list_induct2) (simp_all add: bcast_def assms(1))

lemma mask_select_Nil [simp]: "mask_select [] bs = []"
  by (simp add: mask_select_def)

lemma mask_select_Cons [simp]:
  "mask_select (x # xs) (b # bs) = (if b then x # mask_select xs bs else mask_select xs bs)"
  by (simp add: mask_select_def)

lemma std_normal_cdf_0: "std_normal_cdf 0 = 1 / 2"
  by (simp add: std_normal_cdf_def)

subsection \<open>Kullback-Leibler divergence\<close>

lemma kl_divergence_error:
  "length p = length q \<Longrightarrow> kl_divergence p q = Inl e \<Longrightarrow> e = AssertionError"
  by (auto simp: kl_divergence_def broadcastable_def Let_def split: if_splits)

lemma kl_sum_aux:
  assumes "length p = length q" "list_all isfinite p" "list_all isfinite q"
    and "\<forall>(a, b) \<in> set (zip p q). a \<noteq> Fin 0 \<longrightarrow> b \<noteq> Fin 0"
  shows "np_sum (map2 np_mul (mask_select p (map (\<lambda>x. np_gt x (Fin 0)) p))
           (map np_log (map2 np_div (mask_select p (map (\<lambda>x. np_gt x (Fin 0)) p))
                                    (mask_select q (map (\<lambda>x. np_gt x (Fin 0)) p)))))
       = (if \<exists>(a, b) \<in> set (zip p q). 0 < fin_val a \<and> fin_val b < 0 then NaN
          else Fin (\<Sum>(a, b) \<leftarrow> filter (\<lambda>(a, b). 0 < fin_val a) (zip p q).
                      fin_val a * ln (fin_val a / fin_val b)))"
  using assms
proof (induction p q rule: list_induct2)
  case Nil
  then show ?case by simp
next
  case (Cons x xs y ys)
  from Cons.prems obtain a b where x: "x = Fin a" and y: "y = Fin b"
    by (auto simp: isfinite_iff)
  have IH: "np_sum (map2 np_mul (mask_select xs (map (\<lambda>x. np_gt x (Fin 0)) xs))
           (map np_log (map2 np_div (mask_select xs (map (\<lambda>x. np_gt x (Fin 0)) xs))
                                    (mask_select ys (map (\<lambda>x. np_gt x (Fin 0)) xs)))))
       = (if \<exists>(a, b) \<in> set (zip xs ys). 0 < fin_val a \<and> fin_val b < 0 then NaN
          else Fin (\<Sum>(a, b) \<leftarrow> filter (\<lambda>(a, b). 0 < fin_val a) (zip xs ys).
                      fin_val a * ln (fin_val a / fin_val b)))"
    using Cons.IH Cons.prems by simp
  show ?case
  proof (cases "0 < a")
    case False
    then show ?thesis using IH x y by (simp add: np_gt_def)
  next
    case True
    then have b0: "b \<noteq> 0" using Cons.prems(3) x y by auto
    show ?thesis
    proof (cases "b < 0")
      case True
      then have "a / b < 0" using \<open>0 < a\<close> by (simp add: divide_pos_neg)
      then show ?thesis using IH x y \<open>0 < a\<close> True b0
        by (simp add: np_gt_def)
    next
      case False
      then have "0 < b" using b0 by simp
      then have "0 < a / b" using \<open>0 < a\<close> by simp
      then show ?thesis using IH x y \<open>0 < a\<close> \<open>0 < b\<close>
        by (simp add: np_gt_def divide_less_0_iff)
    qed
  qed
qed

lemma sum_list_filter_zip_index:
  fixes f :: "'a \<Rightarrow> 'b \<Rightarrow> real"
  assumes "length p = length q"
  shows "(\<Sum>(a, b) \<leftarrow> filter P (zip p q). f a b)
       = (\<Sum>i | i < length p \<and> P (p ! i, q ! i). f (p ! i) (q ! i))"
proof -
  have "(\<Sum>(a, b) \<leftarrow> filter P (zip p q). f a b)
      = sum_list (map (\<lambda>x. if P x then (case x of (a, b) \<Rightarrow> f a b) else 0) (zip p q))"
    by (simp add: sum_list_map_filter')
  also have "\<dots> = (\<Sum>i = 0..<length p. if P (p ! i, q ! i) then f (p ! i) (q ! i) else 0)"
    using assms by (auto simp: sum_list_sum_nth intro!: sum.cong)
  also have "\<dots> = (\<Sum>i \<in> {i \<in> {0..<length p}. P (p ! i, q ! i)}. f (p ! i) (q ! i))"
    by (rule sum.inter_filter[symmetric]) simp
  also have "{i \<in> {0..<length p}. P (p ! i, q ! i)} = {i. i < length p \<and> P (p ! i, q ! i)}"
    by auto
  finally show ?thesis .
qed

lemma zip_ex_index:
  assumes "length p = length q"
  shows "(\<exists>(a, b) \<in> set (zip p q). R a b) \<longleftrightarrow> (\<exists>i<length p. R (p ! i) (q ! i))"
  using assms by (auto simp: set_zip)

lemma kl_assert_index:
  assumes "length p = length q" "list_all isfinite p" "list_all isfinite q"
  shows "list_ex (\<lambda>b. b)
           (bcast (\<lambda>a b. a \<and> b) (map (\<lambda>x. np_ne x (Fin 0)) p) (map (\<lambda>y. np_eq y (Fin 0)) q))
         \<longleftrightarrow> (\<exists>i<length p. p ! i \<noteq> Fin 0 \<and> q ! i = Fin 0)"
proof -
  have fin: "\<And>i. i < length p \<Longrightarrow> isfinite (p ! i) \<and> isfinite (q ! i)"
    using assms by (simp add: list_all_length)
  have "list_ex (\<lambda>b. b)
           (bcast (\<lambda>a b. a \<and> b) (map (\<lambda>x. np_ne x (Fin 0)) p) (map (\<lambda>y. np_eq y (Fin 0)) q))
        \<longleftrightarrow> (\<exists>i<length p. np_ne (p ! i) (Fin 0) \<and> np_eq (q ! i) (Fin 0))"
    using assms(1) by (auto simp: bcast_def list_ex_length)
  also have "\<dots> \<longleftrightarrow> (\<exists>i<length p. p ! i \<noteq> Fin 0 \<and> q ! i = Fin 0)"
  proof -
    have "np_ne (p ! i) (Fin 0) \<and> np_eq (q ! i) (Fin 0) \<longleftrightarrow> p ! i \<noteq> Fin 0 \<and> q ! i = Fin 0"
      if "i < length p" for i
      using fin[OF that] by (auto simp: isfinite_iff np_ne_def)
    then show ?thesis by blast
  qed
  finally show ?thesis .
qed

text \<open>
  Claim C5. On vectors of one length, \<open>kl_divergence\<close> raises \<^verbatim>\<open>AssertionError\<close> as soon as
  an entry of \<open>p\<close> or \<open>q\<close> is not finite or some index has \<open>p\<^sub>i \<noteq> 0\<close> and \<open>q\<^sub>i = 0\<close>; on every
  other input it returns the sum of \<open>p\<^sub>i * log (p\<^sub>i / q\<^sub>i)\<close> over exactly the indices with
  \<open>p\<^sub>i > 0\<close>. (Where such an index has \<open>q\<^sub>i < 0\<close>, a term of that sum is the logarithm of a
  negative number, and numpy's sum is \<open>nan\<close>.)
\<close>

theorem kl_divergence_rejects_or_sums:
  assumes "length p = length q"
  shows "(\<not> list_all isfinite p \<or> \<not> list_all isfinite q
            \<or> (\<exists>i<length p. p ! i \<noteq> Fin 0 \<and> q ! i = Fin 0)
          \<longrightarrow> kl_divergence p q = Inl AssertionError)
       \<and> (list_all isfinite p \<and> list_all isfinite q
            \<and> \<not> (\<exists>i<length p. p ! i \<noteq> Fin 0 \<and> q ! i = Fin 0)
          \<longrightarrow> kl_divergence p q =
                Inr (if \<exists>i<length p. 0 < fin_val (p ! i) \<and> fin_val (q ! i) < 0 then NaN
                     else Fin (\<Sum>i | i < length p \<and> 0 < fin_val (p ! i).
                                 fin_val (p ! i) * ln (fin_val (p ! i) / fin_val (q ! i)))))"
proof (intro conjI impI)
  assume bad: "\<not> list_all isfinite p \<or> \<not> list_all isfinite q
            \<or> (\<exists>i<length p. p ! i \<noteq> Fin 0 \<and> q ! i = Fin 0)"
  show "kl_divergence p q = Inl AssertionError"
  proof (cases "list_all isfinite p \<and> list_all isfinite q")
    case False
    then show ?thesis by (auto simp: kl_divergence_def)
  next
    case True
    with bad have "\<exists>i<length p. p ! i \<noteq> Fin 0 \<and> q ! i = Fin 0" by blast
    then show ?thesis using True kl_assert_index[OF assms] assms
      by (simp add: kl_divergence_def broadcastable_def)
  qed
next
  assume ok: "list_all isfinite p \<and> list_all isfinite q
            \<and> \<not> (\<exists>i<length p. p ! i \<noteq> Fin 0 \<and> q ! i = Fin 0)"
  then have fp: "list_all isfinite p" and fq: "list_all isfinite q"
    and nz: "\<not> (\<exists>i<length p. p ! i \<noteq> Fin 0 \<and> q ! i = Fin 0)" by simp_all
  have nz': "\<forall>(a, b) \<in> set (zip p q). a \<noteq> Fin 0 \<longrightarrow> b \<noteq> Fin 0"
    using nz assms by (auto simp: set_zip)
  have "kl_divergence p q =
      Inr (np_sum (map2 np_mul (mask_select p (map (\<lambda>x. np_gt x (Fin 0)) p))
           (map np_log (map2 np_div (mask_select p (map (\<lambda>x. np_gt x (Fin 0)) p))
                                    (mask_select q (map (\<lambda>x. np_gt x (Fin 0)) p))))))"
    using fp fq nz kl_assert_index[OF assms fp fq] assms
    by (simp add: kl_divergence_def broadcastable_def Let_def)
  also have "\<dots> = Inr (if \<exists>(a, b) \<in> set (zip p q). 0 < fin_val a \<and> fin_val b < 0 then NaN
          else Fin (\<Sum>(a, b) \<leftarrow> filter (\<lambda>(a, b). 0 < fin_val a) (zip p q).
                      fin_val a * ln (fin_val a / fin_val b)))"
    using kl_sum_aux[OF assms fp fq nz'] by simp
  also have "\<dots> = Inr (if \<exists>i<length p. 0 < fin_val (p ! i) \<and> fin_val (q ! i) < 0 then NaN
                     else Fin (\<Sum>i | i < length p \<and> 0 < fin_val (p ! i).
                                 fin_val (p ! i) * ln (fin_val (p ! i) / fin_val (q ! i))))"
    by (simp only: zip_ex_index[OF assms, of "\<lambda>a b. 0 < fin_val a \<and> fin_val b < 0"]
          sum_list_filter_zip_index[OF assms, where P = "\<lambda>(a, b). 0 < fin_val a"
             and f = "\<lambda>a b. fin_val a * ln (fin_val a / fin_val b)"] prod.case)
  finally show "kl_divergence p q =
                Inr (if \<exists>i<length p. 0 < fin_val (p ! i) \<and> fin_val (q ! i) < 0 then NaN
                     else Fin (\<Sum>i | i < length p \<and> 0 < fin_val (p ! i).
                                 fin_val (p ! i) * ln (fin_val (p ! i) / fin_val (q ! i))))" .
qed

theorem kl_divergence_rejects_or_sums_witness:
  "kl_divergence [Fin 1, Fin (1/2)] [Fin 0, Fin 1] = Inl AssertionError
   \<and> kl_divergence [Fin (1/2), PosInf] [Fin 1, Fin 1] = Inl AssertionError
   \<and> kl_divergence [Fin (1/2), Fin 0, Fin (1/2)] [Fin (1/4), Fin 5, Fin (3/4)]
       = Inr (Fin (ln 2 / 2 + ln (2/3) / 2))"
proof -
  let ?p = "[Fin (1/2), Fin 0, Fin (1/2)]" and ?q = "[Fin (1/4), Fin 5, Fin (3/4)]"
  have a: "kl_divergence [Fin 1, Fin (1/2)] [Fin 0, Fin 1] = Inl AssertionError"
    using kl_divergence_rejects_or_sums [of "[Fin 1, Fin (1/2)]" "[Fin 0, Fin 1]"] by auto
  have b: "kl_divergence [Fin (1/2), PosInf] [Fin 1, Fin 1] = Inl AssertionError"
    using kl_divergence_rejects_or_sums [of "[Fin (1/2), PosInf]" "[Fin 1, Fin 1]"] by simp
  have len: "length ?p = length ?q" by simp
  have idx: "{i. i < length ?p \<and> 0 < fin_val (?p ! i)} = {0, 2}"
    by (auto simp: nth_Cons' split: if_splits)
  have ok: "list_all isfinite ?p \<and> list_all isfinite ?q
            \<and> \<not> (\<exists>i<length ?p. ?p ! i \<noteq> Fin 0 \<and> ?q ! i = Fin 0)"
    by (auto simp: nth_Cons' split: if_splits)
  have nn: "\<not> (\<exists>i<length ?p. 0 < fin_val (?p ! i) \<and> fin_val (?q ! i) < 0)"
    by (auto simp: nth_Cons' split: if_splits)
  have "kl_divergence ?p ?q =
         Inr (if \<exists>i<length ?p. 0 < fin_val (?p ! i) \<and> fin_val (?q ! i) < 0 then NaN
              else Fin (\<Sum>i | i < length ?p \<and> 0 < fin_val (?p ! i).
                          fin_val (?p ! i) * ln (fin_val (?p ! i) / fin_val (?q ! i))))"
    using kl_divergence_rejects_or_sums [of ?p ?q, OF len] ok by blast
  also have "\<dots> = Inr (Fin (ln 2 / 2 + ln (2/3) / 2))"
    unfolding idx if_not_P[OF nn] by simp
  finally show ?thesis using a b by simp
qed

subsection \<open>Jensen-Shannon divergence\<close>

text \<open>
  Claim C7. \<open>jensen_shannon_divergence\<close> is symmetric in its two arguments, whenever they
  have the same length: the two calls return the same number, or raise the same exception.
\<close>

theorem jensen_shannon_divergence_symmetric:
  assumes "length p = length q"
  shows "jensen_shannon_divergence p q = jensen_shannon_divergence q p"
proof -
  let ?m = "map (\<lambda>x. np_mul x (Fin (1/2))) (bcast np_add p q)"
  have m: "map (\<lambda>x. np_mul x (Fin (1/2))) (bcast np_add q p) = ?m"
    using bcast_commute[of np_add q p] assms np_add_commute by simp
  have lm: "length ?m = length p" using assms by (simp add: bcast_def)
  have bq: "broadcastable p q" "broadcastable q p"
    using assms by (simp_all add: broadcastable_def)
  show ?thesis
  proof (cases "kl_divergence p ?m")
    case (Inl e1)
    then have e1: "e1 = AssertionError" using kl_divergence_error[of p ?m e1] lm by simp
    show ?thesis
    proof (cases "kl_divergence q ?m")
      case (Inl e2)
      then have "e2 = AssertionError" using kl_divergence_error[of q ?m e2] lm assms by simp
      with Inl \<open>kl_divergence p ?m = Inl e1\<close> e1 show ?thesis
        by (simp add: jensen_shannon_divergence_def bq m Let_def)
    next
      case (Inr b)
      with \<open>kl_divergence p ?m = Inl e1\<close> show ?thesis
        by (simp add: jensen_shannon_divergence_def bq m Let_def)
    qed
  next
    case (Inr a)
    then show ?thesis
      by (cases "kl_divergence q ?m")
         (simp_all add: jensen_shannon_divergence_def bq m Let_def np_add_commute)
  qed
qed

theorem jensen_shannon_divergence_symmetric_witness:
  "jensen_shannon_divergence [Fin (1/4), Fin (3/4)] [Fin (1/2), Fin (1/2)]
     = jensen_shannon_divergence [Fin (1/2), Fin (1/2)] [Fin (1/4), Fin (3/4)]
   \<and> jensen_shannon_divergence [Fin (1/2), Fin (1/2)] [Fin (1/4), Fin (3/4)]
     = Inr (Fin ((ln (4/3) / 2 + ln (4/5) / 2 + (ln (2/3) / 4 + 3 * ln (6/5) / 4)) / 2))"
proof -
  have "jensen_shannon_divergence [Fin (1/2), Fin (1/2)] [Fin (1/4), Fin (3/4)]
     = Inr (Fin ((ln (4/3) / 2 + ln (4/5) / 2 + (ln (2/3) / 4 + 3 * ln (6/5) / 4)) / 2))"
    by (simp add: jensen_shannon_divergence_def kl_divergence_def broadcastable_def bcast_def
        np_ne_def np_gt_def)
  then show ?thesis
    using jensen_shannon_divergence_symmetric
            [of "[Fin (1/4), Fin (3/4)]" "[Fin (1/2), Fin (1/2)]"] by simp
qed

subsection \<open>Two-proportion z-test\<close>

lemma z_test_entries:
  assumes "length p1 = length p2" "0 < n1" "0 < n2"
  shows "two_proportions_z_test Phi p1 n1 p2 n2 alpha
         = Inr (map2 (\<lambda>a b. z_entry Phi a n1 b n2 alpha) p1 p2)"
proof -
  have "map (\<lambda>v. np_lt v (Fin alpha))
         (map (\<lambda>v. np_mul (Fin 2) (norm_cdf Phi (np_mul (Fin (- 1)) (np_abs v))))
           (bcast np_div (bcast np_sub p1 p2)
             (map (\<lambda>x. np_sqrt (np_mul (np_mul x (np_sub (Fin 1) x)) (Fin (1 / real n1 + 1 / real n2))))
               (map (\<lambda>x. np_div x (Fin (real (n1 + n2))))
                 (bcast np_add (map (\<lambda>x. np_mul x (Fin (real n1))) p1)
                               (map (\<lambda>x. np_mul x (Fin (real n2))) p2))))))
       = map2 (\<lambda>a b. z_entry Phi a n1 b n2 alpha) p1 p2"
    using assms(1)
    by (intro nth_equalityI) (simp_all add: bcast_def z_entry_def Let_def)
  then show ?thesis
    using assms by (simp add: two_proportions_z_test_def broadcastable_def Let_def)
qed

lemma p_value_cases:
  "np_lt (np_mul (Fin 2) (norm_cdf Phi (np_mul (Fin (- 1)) (np_abs (np_div (Fin d) (np_sqrt (Fin r)))))))
         (Fin alpha)
   = (if 0 < r then 2 * Phi (- \<bar>d / sqrt r\<bar>) < alpha
      else if r = 0 \<and> d \<noteq> 0 then 0 < alpha
      else False)"
  by (auto simp: inf_of_sign_def sgn_if)

lemma z_entry_fin:
  assumes "0 < n1" "0 < n2"
  shows "z_entry Phi (Fin x) n1 (Fin y) n2 alpha =
          (if 0 < pooled_radicand x n1 y n2 then z_test_spec Phi x n1 y n2 alpha
           else if pooled_radicand x n1 y n2 = 0 \<and> x \<noteq> y then 0 < alpha
           else False)"
proof -
  have n: "real n1 + real n2 \<noteq> 0" using assms by simp
  have e: "z_entry Phi (Fin x) n1 (Fin y) n2 alpha =
      np_lt (np_mul (Fin 2) (norm_cdf Phi (np_mul (Fin (- 1))
              (np_abs (np_div (Fin (x - y)) (np_sqrt (Fin (pooled_radicand x n1 y n2))))))))
            (Fin alpha)"
    using n by (simp add: z_entry_def pooled_radicand_def Let_def np_sub_def)
  have s: "z_test_spec Phi x n1 y n2 alpha
           = (2 * Phi (- \<bar>(x - y) / sqrt (pooled_radicand x n1 y n2)\<bar>) < alpha)"
    by (simp add: z_test_spec_def pooled_radicand_def Let_def)
  show ?thesis
    unfolding e s p_value_cases by simp
qed


text \<open>
  Claim C6. For proportion vectors of one length and positive sample sizes,
  \<open>two_proportions_z_test\<close> returns one flag per entry, and the flag is true exactly where
  the two-tailed p-value \<open>2 * Phi (- |z|)\<close> of the specification's formula is below the
  level. Where the standard error is 0 or undefined, numpy computes with \<open>nan\<close> and \<open>inf\<close>:
  the flag is false, except that an infinite z-score has p-value 0.
\<close>

theorem two_proportions_z_test_elementwise:
  assumes "length p1 = length p2" "0 < n1" "0 < n2"
    and "list_all isfinite p1" "list_all isfinite p2"
  shows "two_proportions_z_test Phi p1 n1 p2 n2 alpha =
           Inr (map (\<lambda>i. if 0 < pooled_radicand (fin_val (p1 ! i)) n1 (fin_val (p2 ! i)) n2
                          then z_test_spec Phi (fin_val (p1 ! i)) n1 (fin_val (p2 ! i)) n2 alpha
                          else if pooled_radicand (fin_val (p1 ! i)) n1 (fin_val (p2 ! i)) n2 = 0
                                  \<and> fin_val (p1 ! i) \<noteq> fin_val (p2 ! i)
                          then 0 < alpha
                          else False)
                  [0..<length p1])"
proof -
  have "map2 (\<lambda>a b. z_entry Phi a n1 b n2 alpha) p1 p2
      = map (\<lambda>i. if 0 < pooled_radicand (fin_val (p1 ! i)) n1 (fin_val (p2 ! i)) n2
                          then z_test_spec Phi (fin_val (p1 ! i)) n1 (fin_val (p2 ! i)) n2 alpha
                          else if pooled_radicand (fin_val (p1 ! i)) n1 (fin_val (p2 ! i)) n2 = 0
                                  \<and> fin_val (p1 ! i) \<noteq> fin_val (p2 ! i)
                          then 0 < alpha
                          else False)
                  [0..<length p1]"
  proof (intro nth_equalityI)
    show "length (map2 (\<lambda>a b. z_entry Phi a n1 b n2 alpha) p1 p2) = length (map (\<lambda>i. if 0 < pooled_radicand (fin_val (p1 ! i)) n1 (fin_val (p2 ! i)) n2
                          then z_test_spec Phi (fin_val (p1 ! i)) n1 (fin_val (p2 ! i)) n2 alpha
                          else if pooled_radicand (fin_val (p1 ! i)) n1 (fin_val (p2 ! i)) n2 = 0
                                  \<and> fin_val (p1 ! i) \<noteq> fin_val (p2 ! i)
                          then 0 < alpha
                          else False)
                  [0..<length p1])"
      using assms(1) by simp
  next
    fix i assume "i < length (map2 (\<lambda>a b. z_entry Phi a n1 b n2 alpha) p1 p2)"
    then have i: "i < length p1" "i < length p2" using assms(1) by simp_all
    then have "isfinite (p1 ! i)" "isfinite (p2 ! i)"
      using assms(4,5) by (simp_all add: list_all_length)
    then obtain x y where xy: "p1 ! i = Fin x" "p2 ! i = Fin y"
      by (auto simp: isfinite_iff)
    show "map2 (\<lambda>a b. z_entry Phi a n1 b n2 alpha) p1 p2 ! i
        = map (\<lambda>i. if 0 < pooled_radicand (fin_val (p1 ! i)) n1 (fin_val (p2 ! i)) n2
                          then z_test_spec Phi (fin_val (p1 ! i)) n1 (fin_val (p2 ! i)) n2 alpha
                          else if pooled_radicand (fin_val (p1 ! i)) n1 (fin_val (p2 ! i)) n2 = 0
                                  \<and> fin_val (p1 ! i) \<noteq> fin_val (p2 ! i)
                          then 0 < alpha
                          else False)
                  [0..<length p1] ! i"
      using i xy z_entry_fin[OF assms(2,3), of Phi x y alpha] by simp
  qed
  then show ?thesis using z_test_entries[OF assms(1-3)] by simp
qed

theorem two_proportions_z_test_elementwise_witness:
  "two_proportions_z_test std_normal_cdf [Fin (1/2), Fin 1] 4 [Fin (1/2), Fin 1] 2 (1/20)
     = Inr [False, False]"
proof -
  have "two_proportions_z_test std_normal_cdf [Fin (1/2), Fin 1] 4 [Fin (1/2), Fin 1] 2 (1/20)
     = Inr (map (\<lambda>i. if 0 < pooled_radicand (fin_val ([Fin (1/2), Fin 1] ! i)) 4 (fin_val ([Fin (1/2), Fin 1] ! i)) 2
                          then z_test_spec std_normal_cdf (fin_val ([Fin (1/2), Fin 1] ! i)) 4 (fin_val ([Fin (1/2), Fin 1] ! i)) 2 (1/20)
                          else if pooled_radicand (fin_val ([Fin (1/2), Fin 1] ! i)) 4 (fin_val ([Fin (1/2), Fin 1] ! i)) 2 = 0
                                  \<and> fin_val ([Fin (1/2), Fin 1] ! i) \<noteq> fin_val ([Fin (1/2), Fin 1] ! i)
                          then (0::real) < 1/20
                          else False)
                  [0..<length [Fin (1/2), Fin 1]])"
    by (rule two_proportions_z_test_elementwise) simp_all
  also have "\<dots> = Inr [False, False]"
    by (simp add: upt_rec pooled_radicand_def z_test_spec_def std_normal_cdf_0)
  finally show ?thesis .
qed

section \<open>Properties of the fit\<close>

lemma read_from_bins_file_none:
  "snapshot_at w bins_file = None \<Longrightarrow> read_from_bins_file w st bins_file = Inr (False, st)"
  by (auto simp: snapshot_at_def read_from_bins_file_def split: option.splits if_splits)

lemma read_from_bins_file_pickled:
  "snapshot_at w bins_file = Some (Pickled bins) \<Longrightarrow>
   read_from_bins_file w st bins_file =
     Inr (True, st\<lparr>bin_proportions := snap_proportions bins,
                    bin_centers := snap_centers bins,
                    ref_sample_size := snap_n bins,
                    training_mean := snap_mean bins,
                    training_std := snap_std bins\<rparr>)"
  by (auto simp: snapshot_at_def read_from_bins_file_def split: option.splits if_splits)

lemma read_from_bins_file_unreadable:
  "snapshot_at w bins_file = Some Unreadable \<Longrightarrow>
   read_from_bins_file w st bins_file = Inl UnpicklingError"
  by (auto simp: snapshot_at_def read_from_bins_file_def split: option.splits if_splits)

lemma construct_bins_fits:
  "snapshot_at w bins_file = None \<Longrightarrow>
   construct_bins e w st X bins_file = fit_from_samples e w st X bins_file"
  by (simp add: construct_bins_def read_from_bins_file_none)

lemma fit_from_samples_statistics:
  assumes "fit_from_samples e w st X bins_file = Inr (w', st')"
  shows "training_mean st' = (if whitening st then Vec (mean_axis0 (ncols X) X) else training_mean st)"
    and "training_std st' = (if whitening st
           then Vec (map (\<lambda>s. np_add s (Fin (ndb_eps st))) (std_axis0 (ncols X) X))
           else training_std st)"
  using assms
  by (auto simp: fit_from_samples_def Let_def split: sum.splits if_splits prod.splits)

lemma write_to_bins_file_runs [simp]:
  "kmeans_runs (write_to_bins_file w st bins_file) = kmeans_runs w"
  by (simp add: write_to_bins_file_def split: option.splits)

lemma fit_from_samples_bins:
  assumes "fit_from_samples e w st X bins_file = Inr (w', st')"
  shows "\<exists>labels centers ps cs. length labels = length X \<and> length centers = number_of_bins st
           \<and> organize_bins (number_of_bins st) centers labels = Inr (ps, cs)
           \<and> bin_proportions st' = Some ps \<and> bin_centers st' = Some cs
           \<and> ref_sample_size st' = Some (length X)
           \<and> kmeans_runs w' = Suc (kmeans_runs w)
           \<and> w' = write_to_bins_file (w\<lparr>kmeans_runs := Suc (kmeans_runs w)\<rparr>) st' bins_file"
proof -
  define st2 where "st2 =
     (let st1 = (if whitening st
                 then st\<lparr>training_mean := Vec (mean_axis0 (ncols X) X),
                         training_std := Vec (map (\<lambda>s. np_add s (Fin (ndb_eps st)))
                                                (std_axis0 (ncols X) X))\<rparr>
                 else st)
      in if max_dims st1 = None \<and> 1000 < ncols X
         then st1\<lparr>max_dims := Some (ncols X div 6)\<rparr> else st1)"
  have k: "number_of_bins st2 = number_of_bins st"
    by (simp add: st2_def Let_def)
  from assms obtain W where W: "whiten (training_mean st2) (training_std st2) X = Inr W"
    unfolding fit_from_samples_def st2_def Let_def by (auto split: sum.splits)
  define cols where "cols = take (case max_dims st2 of None \<Rightarrow> ncols X | Some m \<Rightarrow> min (ncols X) m)
                              (random_permutation e (ncols X))"
  from assms W obtain labels where
    L: "kmeans_fit e (number_of_bins st) (select_columns W cols) = Inr labels"
    unfolding fit_from_samples_def st2_def cols_def Let_def
    by (auto split: sum.splits if_splits)
  define centers where "centers = map (\<lambda>i. mean_axis0 (ncols X)
                                      (mask_select W (map (\<lambda>l. l = i) labels)))
                                   [0..<number_of_bins st]"
  from assms W L obtain ps cs where
    O: "organize_bins (number_of_bins st) centers labels = Inr (ps, cs)"
    and len: "length labels = length X"
    and res: "st' = st2\<lparr>bin_proportions := Some ps, bin_centers := Some cs,
                          ref_sample_size := Some (length X)\<rparr>"
             "w' = write_to_bins_file (w\<lparr>kmeans_runs := Suc (kmeans_runs w)\<rparr>) st' bins_file"
    unfolding fit_from_samples_def st2_def cols_def centers_def Let_def
    by (auto split: sum.splits if_splits prod.splits)
  have "length centers = number_of_bins st" by (simp add: centers_def)
  with O len res show ?thesis by auto
qed

lemma argsort_length [simp]: "length (argsort keys) = length keys"
  by (simp add: argsort_def)

lemma argsort_set [simp]: "set (argsort keys) = {0..<length keys}"
proof -
  have "set (argsort keys) = snd ` set (zip keys [0..<length keys])"
    by (simp add: argsort_def)
  also have "\<dots> = set (map snd (zip keys [0..<length keys]))"
    by (simp only: set_map)
  also have "\<dots> = set [0..<length keys]"
    by (simp only: map_snd_zip length_upt diff_zero)
  finally show ?thesis by simp
qed

lemma argsort_sorted: "sorted (map (\<lambda>i. keys ! i) (argsort keys))"
proof -
  let ?zs = "zip keys [0..<length keys]"
  have "map (\<lambda>i. keys ! i) (argsort keys) = map (\<lambda>z. keys ! snd z) (sort_key fst ?zs)"
    by (simp add: argsort_def comp_def)
  also have "\<dots> = map fst (sort_key fst ?zs)"
    by (rule map_cong) (auto simp: set_zip)
  finally show ?thesis by simp
qed

lemma unique_counts_positive:
  "unique_counts labels = (vals, counts) \<Longrightarrow> c \<in> set counts \<Longrightarrow> 0 < c"
  by (auto simp: unique_counts_def Let_def count_list_0_iff intro!: gr0I)

lemma organize_bins_descending:
  assumes "organize_bins k centers labels = Inr (ps, cs)"
  shows "descending ps"
proof -
  obtain vals counts where uc: "unique_counts labels = (vals, counts)"
    by (cases "unique_counts labels")
  let ?order = "argsort (map (\<lambda>c. - int c) counts)"
  let ?total = "sum_list counts"
  have ps: "ps = map (\<lambda>c. np_div (Fin (real c)) (Fin (real ?total))) (map (\<lambda>b. counts ! b) ?order)"
    using assms uc by (auto simp: organize_bins_def Let_def split: if_splits)
  have len: "length ps = length counts" by (simp add: ps)
  have srt: "sorted (map (\<lambda>i. map (\<lambda>c. - int c) counts ! i) ?order)"
    by (rule argsort_sorted)
  show ?thesis
    unfolding descending_def
  proof (intro allI impI)
    fix i assume i: "Suc i < length ps"
    then have i': "i < length counts" "Suc i < length counts" using len by simp_all
    have oi: "?order ! i < length counts" "?order ! Suc i < length counts"
      using i' nth_mem[of i ?order] nth_mem[of "Suc i" ?order] by simp_all
    have "map (\<lambda>i. map (\<lambda>c. - int c) counts ! i) ?order ! i
        \<le> map (\<lambda>i. map (\<lambda>c. - int c) counts ! i) ?order ! Suc i"
      using srt i' by (intro sorted_nth_mono) simp_all
    then have ge: "counts ! (?order ! Suc i) \<le> counts ! (?order ! i)"
      using i' oi by simp
    have "counts ! (?order ! i) \<in> set counts" using oi by simp
    then have "0 < ?total"
      using unique_counts_positive[OF uc, of "counts ! (?order ! i)"]
            member_le_sum_list[of "counts ! (?order ! i)" counts] by linarith
    define t where "t = real ?total"
    have t: "0 < t" using \<open>0 < ?total\<close> by (simp add: t_def)
    have "ps ! i = Fin (real (counts ! (?order ! i)) / t)"
         "ps ! Suc i = Fin (real (counts ! (?order ! Suc i)) / t)"
      using i' t unfolding ps t_def[symmetric] by simp_all
    then show "np_ge (ps ! i) (ps ! Suc i)"
      using ge t by (auto simp: np_ge_def divide_le_cancel not_less divide_strict_right_mono)
  qed
qed

lemma organize_bins_lengths:
  assumes "organize_bins k centers labels = Inr (ps, cs)"
  shows "length ps = length cs" "length ps = card (set labels)"
  using assms
  by (auto simp: organize_bins_def Let_def unique_counts_def length_remdups_card_conv
      split: if_splits prod.splits)

lemma np_sum_Fin: "np_sum (map (\<lambda>x. Fin (f x)) xs) = Fin (\<Sum>x\<leftarrow>xs. f x)"
  by (induction xs) simp_all

lemma np_mean_Fin:
  "xs \<noteq> [] \<Longrightarrow> np_mean (map (\<lambda>x. Fin (f x)) xs) = Fin ((\<Sum>x\<leftarrow>xs. f x) / real (length xs))"
  by (simp add: np_mean_def np_sum_Fin)

lemma np_std_Fin:
  assumes "xs \<noteq> []"
  shows "np_std (map Fin xs) =
           Fin (sqrt ((\<Sum>x\<leftarrow>xs. (x - sum_list xs / real (length xs))\<^sup>2) / real (length xs)))"
proof -
  let ?m = "sum_list xs / real (length xs)"
  have m: "np_mean (map Fin xs) = Fin ?m"
    using np_mean_Fin[OF assms, of "\<lambda>x. x"] by simp
  have eq: "map (\<lambda>x. let a = np_abs (np_sub x (Fin ?m)) in np_mul a a) (map Fin xs)
      = map (\<lambda>x. Fin ((x - ?m)\<^sup>2)) xs"
    by (simp add: np_sub_def Let_def power2_eq_square)
  have "np_mean (map (\<lambda>x. let a = np_abs (np_sub x (Fin ?m)) in np_mul a a) (map Fin xs))
      = Fin ((\<Sum>x\<leftarrow>xs. (x - ?m)\<^sup>2) / real (length xs))"
    unfolding eq by (rule np_mean_Fin[OF assms])
  moreover have "0 \<le> (\<Sum>x\<leftarrow>xs. (x - ?m)\<^sup>2) / real (length xs)"
    by (intro divide_nonneg_nonneg sum_list_nonneg) auto
  ultimately show ?thesis
    unfolding np_std_def m Let_def by (simp add: not_less)
qed

lemma finite_list_map_Fin: "list_all isfinite xs \<Longrightarrow> xs = map Fin (map fin_val xs)"
  by (induction xs) (auto simp: isfinite_iff)

lemma np_std_finite:
  assumes "xs \<noteq> []" "list_all isfinite xs"
  shows "\<exists>s. 0 \<le> s \<and> np_std xs = Fin s"
proof -
  have "np_std (map Fin (map fin_val xs)) = Fin (sqrt ((\<Sum>x\<leftarrow>map fin_val xs.
           (x - sum_list (map fin_val xs) / real (length (map fin_val xs)))\<^sup>2) / real (length (map fin_val xs))))"
    using assms(1) by (intro np_std_Fin) simp
  moreover have "0 \<le> sqrt ((\<Sum>x\<leftarrow>map fin_val xs.
           (x - sum_list (map fin_val xs) / real (length (map fin_val xs)))\<^sup>2) / real (length (map fin_val xs)))"
    by (intro real_sqrt_ge_zero divide_nonneg_nonneg sum_list_nonneg) auto
  ultimately show ?thesis using finite_list_map_Fin[OF assms(2)] by metis
qed

lemma column_finite:
  assumes "finite_matrix X" "j < ncols X"
  shows "list_all isfinite (column X j)"
  using assms by (auto simp: finite_matrix_def column_def list_all_iff)

lemma std_axis0_finite:
  assumes "finite_matrix X" "j < ncols X"
  shows "\<exists>s. 0 \<le> s \<and> std_axis0 (ncols X) X ! j = Fin s"
proof -
  have "X \<noteq> []" using assms(2) by (auto simp: ncols_def)
  then have "column X j \<noteq> []" by (simp add: column_def)
  then show ?thesis
    using np_std_finite[OF _ column_finite[OF assms]] assms(2) by (simp add: std_axis0_def)
qed

subsection \<open>Example runs of the fit\<close>

lemmas fit_defs = NDB_init_def construct_bins_def fit_from_samples_def read_from_bins_file_def
  write_to_bins_file_def organize_bins_def unique_counts_def argsort_def whiten_def ncols_def
  select_columns_def mean_axis0_def std_axis0_def column_def np_mean_def np_std_def np_sub_def
  bcast_def example_env_def empty_world_def Let_def

lemma example_fit_whitened:
  "NDB_init (example_env [0, 0]) empty_world (Some [[Fin 0], [Fin 2]]) 1 (1/20) True None None
  = Inr (\<lparr>files = Map.empty, kmeans_runs = 1\<rparr>,
         \<lparr>number_of_bins = 1, significance_level = 1/20, whitening = True, ndb_eps = 1/1000000,
          training_mean = Vec [Fin 1], training_std = Vec [Fin (1000001/1000000)],
          max_dims = None, bin_centers = Some [[Fin 0]], bin_proportions = Some [Fin 1],
          ref_sample_size = Some 2, cached_results = Map.empty\<rparr>)"
  by (simp add: fit_defs)

lemma example_std: "std_axis0 (ncols [[Fin 0], [Fin 2]]) [[Fin 0], [Fin 2]] = [Fin 1]"
  by (simp add: ncols_def std_axis0_def column_def np_mean_def np_std_def np_sub_def)

lemma example_fit_ordered:
  "construct_bins (example_env [0, 1, 1]) empty_world
     \<lparr>number_of_bins = 2, significance_level = 1/20, whitening = False, ndb_eps = 1/1000000,
      training_mean = Scalar (Fin 0), training_std = Scalar (Fin 1),
      max_dims = None, bin_centers = None, bin_proportions = None,
      ref_sample_size = None, cached_results = Map.empty\<rparr>
     [[Fin 0], [Fin 4], [Fin 6]] (Some ''bins.pkl'')
  = Inr (\<lparr>files = [''bins.pkl'' \<mapsto> Pickled \<lparr>snap_proportions = Some [Fin (2/3), Fin (1/3)],
                 snap_centers = Some [[Fin 5], [Fin 0]], snap_n = Some 3,
                 snap_mean = Scalar (Fin 0), snap_std = Scalar (Fin 1)\<rparr>], kmeans_runs = 1\<rparr>,
         \<lparr>number_of_bins = 2, significance_level = 1/20, whitening = False, ndb_eps = 1/1000000,
          training_mean = Scalar (Fin 0), training_std = Scalar (Fin 1),
          max_dims = None, bin_centers = Some [[Fin 5], [Fin 0]], bin_proportions = Some [Fin (2/3), Fin (1/3)],
          ref_sample_size = Some 3, cached_results = Map.empty\<rparr>)"
  by (simp add: fit_defs upt_rec numeral_3_eq_3)

lemma snapshots_descending_empty: "snapshots_descending empty_world"
  by (simp add: snapshots_descending_def empty_world_def)


subsection \<open>Whitening statistics\<close>

text \<open>
  Claim C1, as the code has it. A fit that clusters (no bins file is read) with whitening
  stores the per-dimension mean and, as std, the sample standard deviation plus
  \<open>ndb_eps = 1e-6\<close>: on finite training data every stored entry is \<open>s + 1e-6\<close> for the
  sample value \<open>s \<ge> 0\<close>, so it is at least \<open>1e-6\<close> and never the sample value itself.
  Without whitening the mean stays the float 0 and the std the float 1.
\<close>

theorem fit_stores_std_plus_eps:
  assumes "NDB_init e w (Some X) k alpha wh md bins_file = Inr (w', st')"
    and "snapshot_at w bins_file = None"
  shows "(wh \<longrightarrow> training_mean st' = Vec (mean_axis0 (ncols X) X)
              \<and> training_std st' = Vec (map (\<lambda>s. np_add s (Fin (1 / 1000000))) (std_axis0 (ncols X) X))
              \<and> (finite_matrix X \<longrightarrow>
                   (\<forall>j<ncols X. \<exists>s v. std_axis0 (ncols X) X ! j = Fin s \<and> 0 \<le> s
                       \<and> training_std st' = Vec v \<and> v ! j = Fin (s + 1 / 1000000))))
       \<and> (\<not> wh \<longrightarrow> training_mean st' = Scalar (Fin 0) \<and> training_std st' = Scalar (Fin 1))"
proof -
  let ?st = "\<lparr>number_of_bins = k, significance_level = alpha, whitening = wh,
                ndb_eps = 1 / 1000000,
                training_mean = Scalar (Fin 0), training_std = Scalar (Fin 1),
                max_dims = md, bin_centers = None, bin_proportions = None,
                ref_sample_size = None, cached_results = Map.empty\<rparr>"
  have fit: "fit_from_samples e w ?st X bins_file = Inr (w', st')"
    using assms by (simp add: NDB_init_def construct_bins_fits)
  note stats = fit_from_samples_statistics[OF fit]
  have mean: "training_mean st' = (if wh then Vec (mean_axis0 (ncols X) X) else Scalar (Fin 0))"
    using stats(1) by simp
  have std: "training_std st' = (if wh
           then Vec (map (\<lambda>s. np_add s (Fin (1 / 1000000))) (std_axis0 (ncols X) X))
           else Scalar (Fin 1))"
    using stats(2) by simp
  have "\<exists>s v. std_axis0 (ncols X) X ! j = Fin s \<and> 0 \<le> s
             \<and> training_std st' = Vec v \<and> v ! j = Fin (s + 1 / 1000000)"
    if wh: "wh" and fm: "finite_matrix X" and j: "j < ncols X" for j
  proof -
    obtain s where s: "0 \<le> s" "std_axis0 (ncols X) X ! j = Fin s"
      using std_axis0_finite[OF fm j] by blast
    have "map (\<lambda>s. np_add s (Fin (1 / 1000000))) (std_axis0 (ncols X) X) ! j = Fin (s + 1 / 1000000)"
      using s j by (simp add: std_axis0_def)
    then show ?thesis using s std wh by auto
  qed
  then show ?thesis using mean std by auto
qed


theorem fit_stores_std_plus_eps_witness:
  "NDB_init (example_env [0, 0]) empty_world (Some [[Fin 0], [Fin 2]]) 1 (1/20) True None None
  = Inr (\<lparr>files = Map.empty, kmeans_runs = 1\<rparr>,
         \<lparr>number_of_bins = 1, significance_level = 1/20, whitening = True, ndb_eps = 1/1000000,
          training_mean = Vec [Fin 1], training_std = Vec [Fin (1000001/1000000)],
          max_dims = None, bin_centers = Some [[Fin 0]], bin_proportions = Some [Fin 1],
          ref_sample_size = Some 2, cached_results = Map.empty\<rparr>)
   \<and> snapshot_at empty_world None = None
   \<and> Vec [Fin (1000001/1000000)]
       = Vec (map (\<lambda>s. np_add s (Fin (1 / 1000000))) (std_axis0 (ncols [[Fin 0], [Fin 2]]) [[Fin 0], [Fin 2]]))"
proof -
  have s: "snapshot_at empty_world None = None" by (simp add: snapshot_at_def)
  show ?thesis
    using fit_stores_std_plus_eps[OF example_fit_whitened s] example_fit_whitened s
    by (simp del: One_nat_def)
qed

text \<open>
  The std is not floored: for the two training samples 0 and 2 the sample standard
  deviation is 1, well above \<open>1e-6\<close>, and the stored value is \<open>1.000001\<close>.
\<close>

theorem stored_std_is_not_floored:
  "(case NDB_init (example_env [0, 0]) empty_world (Some [[Fin 0], [Fin 2]]) 1 (1/20) True None None of
      Inl err \<Rightarrow> False
    | Inr (w, st) \<Rightarrow> training_std st = Vec [Fin (1000001 / 1000000)])
   \<and> std_axis0 (ncols [[Fin 0], [Fin 2]]) [[Fin 0], [Fin 2]] = [Fin 1]
   \<and> np_ge (Fin 1) (Fin (1 / 1000000))
   \<and> Fin (1000001 / 1000000) \<noteq> Fin 1"
  by (simp add: example_fit_whitened example_std np_ge_def del: One_nat_def)


subsection \<open>Number and order of the bins\<close>

text \<open>
  When each of the labels \<open>0, \<dots>, k - 1\<close> occurs, the bins are organized as intended:
  \<open>k\<close> proportions that sum to 1, each the share of one cluster and stored at the index
  of that cluster's center.
\<close>

lemma sum_list_insort_key:
  fixes f :: "'a \<Rightarrow> nat"
  shows "sum_list (map f (insort_key g x xs)) = f x + sum_list (map f xs)"
  by (induction xs) simp_all

lemma sum_list_sort_key:
  fixes f :: "'a \<Rightarrow> nat"
  shows "sum_list (map f (sort_key g xs)) = sum_list (map f xs)"
  by (induction xs) (simp_all add: sum_list_insort_key)

lemma sum_list_argsort:
  assumes "length keys = length counts"
  shows "sum_list (map (\<lambda>b. counts ! b) (argsort keys)) = sum_list (counts :: nat list)"
proof -
  have "sum_list (map (\<lambda>b. counts ! b) (argsort keys))
      = sum_list (map (\<lambda>z. counts ! snd z) (sort_key fst (zip keys [0..<length keys])))"
    by (simp add: argsort_def comp_def)
  also have "\<dots> = sum_list (map (\<lambda>z. counts ! snd z) (zip keys [0..<length keys]))"
    by (rule sum_list_sort_key)
  also have "\<dots> = sum_list (map (\<lambda>b. counts ! b) (map snd (zip keys [0..<length keys])))"
    by (simp only: map_map comp_def)
  also have "map snd (zip keys [0..<length keys]) = [0..<length counts]"
    using assms by (simp add: map_snd_zip)
  also have "map (\<lambda>b. counts ! b) [0..<length counts] = counts"
    by (rule map_nth)
  finally show ?thesis .
qed

lemma np_sum_div:
  assumes "t \<noteq> 0"
  shows "np_sum (map (\<lambda>c. np_div (Fin (real c)) (Fin t)) cs) = Fin (real (sum_list cs) / t)"
  using assms by (induction cs) (simp_all add: add_divide_distrib)

lemma unique_counts_all_labels:
  assumes "set labels = {0..<k}"
  shows "unique_counts labels = ([0..<k], map (count_list labels) [0..<k])"
proof -
  have "sort (remdups labels) = [0..<k]"
    using assms by (intro sorted_distinct_set_unique) simp_all
  then show ?thesis by (simp add: unique_counts_def Let_def)
qed

lemma sum_counts_all_labels:
  assumes "set labels = {0..<k}"
  shows "sum_list (map (count_list labels) [0..<k]) = length labels"
proof -
  have "sum_list (map (count_list labels) [0..<k]) = sum (count_list labels) (set [0..<k])"
    by (rule sum_list_distinct_conv_sum_set) simp
  also have "\<dots> = length labels"
    using assms by (intro sum_count_set) simp_all
  finally show ?thesis .
qed

lemma organize_bins_all_labels:
  assumes "set labels = {0..<k}" and "0 < k"
  shows "\<exists>order. set order = {0..<k} \<and> length order = k
           \<and> organize_bins k centers labels =
               Inr (map (\<lambda>b. Fin (real (count_list labels b) / real (length labels))) order,
                    map (\<lambda>b. centers ! b) order)
           \<and> np_sum (map (\<lambda>b. Fin (real (count_list labels b) / real (length labels))) order) = Fin 1"
proof -
  let ?counts = "map (count_list labels) [0..<k]"
  let ?order = "argsort (map (\<lambda>c. - int c) ?counts)"
  have uc: "unique_counts labels = ([0..<k], ?counts)"
    by (rule unique_counts_all_labels[OF assms(1)])
  have total: "sum_list ?counts = length labels"
    by (rule sum_counts_all_labels[OF assms(1)])
  have ne: "labels \<noteq> []" using assms by auto
  then have t: "real (length labels) \<noteq> 0" by simp
  have so: "set ?order = {0..<k}" and lo: "length ?order = k" by simp_all
  have ok: "list_all (\<lambda>b. b < k) ?order" using so by (simp add: list_all_iff)
  have ps: "map (\<lambda>c. np_div (Fin (real c)) (Fin (real (length labels)))) (map (\<lambda>b. ?counts ! b) ?order)
          = map (\<lambda>b. Fin (real (count_list labels b) / real (length labels))) ?order"
    using so t by (auto simp: comp_def)
  have ob: "organize_bins k centers labels =
               Inr (map (\<lambda>b. Fin (real (count_list labels b) / real (length labels))) ?order,
                    map (\<lambda>b. centers ! b) ?order)"
    using ok ps by (simp add: organize_bins_def uc total Let_def del: upt.simps map_map)
  have "np_sum (map (\<lambda>c. np_div (Fin (real c)) (Fin (real (length labels)))) (map (\<lambda>b. ?counts ! b) ?order))
      = Fin (real (sum_list (map (\<lambda>b. ?counts ! b) ?order)) / real (length labels))"
    by (rule np_sum_div[OF t])
  also have "sum_list (map (\<lambda>b. ?counts ! b) ?order) = sum_list ?counts"
    by (rule sum_list_argsort) simp
  finally have "np_sum (map (\<lambda>b. Fin (real (count_list labels b) / real (length labels))) ?order) = Fin 1"
    using t total unfolding ps by simp
  with so lo ob show ?thesis by blast
qed

text \<open>
  Claim C2, at an input where a cluster stays empty. Two coinciding training samples and
  \<open>k = 2\<close>: the clustering primitive gives both the label 0, \<^verbatim>\<open>np.unique\<close> sees one
  label, and the fit stores one proportion and one center although \<open>number_of_bins\<close> is 2.
\<close>

theorem fit_with_empty_cluster_stores_fewer_bins:
  "NDB_init (example_env [0, 0]) empty_world (Some [[Fin 0], [Fin 0]]) 2 (1/20) False None None
  = Inr (\<lparr>files = Map.empty, kmeans_runs = 1\<rparr>,
         \<lparr>number_of_bins = 2, significance_level = 1/20, whitening = False, ndb_eps = 1/1000000,
          training_mean = Scalar (Fin 0), training_std = Scalar (Fin 1),
          max_dims = None, bin_centers = Some [[Fin 0]], bin_proportions = Some [Fin 1],
          ref_sample_size = Some 2, cached_results = Map.empty\<rparr>)"
  by (simp add: fit_defs upt_rec)


text \<open>
  Claim C3. After every successful \<open>construct_bins\<close> the stored proportions are in
  non-increasing order, \<open>bin_proportions[i] >= bin_proportions[i+1]\<close>. A fit that
  restores a bins file takes them from the file, so the files are assumed to hold
  snapshots in that order; every file the fit writes does, so the assumption is kept.
\<close>

theorem construct_bins_descending:
  assumes "construct_bins e w st X bins_file = Inr (w', st')"
    and "snapshots_descending w"
  shows "(\<exists>ps. bin_proportions st' = Some ps
            \<and> (\<forall>i. Suc i < length ps \<longrightarrow> np_ge (ps ! i) (ps ! Suc i)))
       \<and> snapshots_descending w'"
proof (cases "snapshot_at w bins_file")
  case None
  then have fit: "fit_from_samples e w st X bins_file = Inr (w', st')"
    using assms(1) by (simp add: construct_bins_fits)
  from fit_from_samples_bins[OF fit] obtain labels centers ps cs where
    O: "organize_bins (number_of_bins st) centers labels = Inr (ps, cs)"
    and ps: "bin_proportions st' = Some ps"
    and w': "w' = write_to_bins_file (w\<lparr>kmeans_runs := Suc (kmeans_runs w)\<rparr>) st' bins_file"
    by blast
  have d: "descending ps" by (rule organize_bins_descending[OF O])
  have "snapshots_descending w'"
    using assms(2) d ps unfolding w'
    by (auto simp: snapshots_descending_def write_to_bins_file_def split: option.splits if_splits)
  then show ?thesis using d ps by (simp add: descending_def)
next
  case (Some c)
  show ?thesis
  proof (cases c)
    case (Pickled bins)
    with Some have r: "construct_bins e w st X bins_file =
           Inr (w, st\<lparr>bin_proportions := snap_proportions bins,
                       bin_centers := snap_centers bins,
                       ref_sample_size := snap_n bins,
                       training_mean := snap_mean bins,
                       training_std := snap_std bins\<rparr>)"
      by (simp add: construct_bins_def read_from_bins_file_pickled)
    from Some Pickled have "files w (the bins_file) = Some (Pickled bins)"
      by (auto simp: snapshot_at_def split: option.splits if_splits)
    then obtain ps where "snap_proportions bins = Some ps" "descending ps"
      using assms(2) by (auto simp: snapshots_descending_def)
    then show ?thesis using r assms by (auto simp: descending_def)
  next
    case Unreadable
    with Some assms(1) show ?thesis
      by (simp add: construct_bins_def read_from_bins_file_unreadable)
  qed
qed

theorem construct_bins_descending_witness:
  "construct_bins (example_env [0, 1, 1]) empty_world
     \<lparr>number_of_bins = 2, significance_level = 1/20, whitening = False, ndb_eps = 1/1000000,
      training_mean = Scalar (Fin 0), training_std = Scalar (Fin 1),
      max_dims = None, bin_centers = None, bin_proportions = None,
      ref_sample_size = None, cached_results = Map.empty\<rparr>
     [[Fin 0], [Fin 4], [Fin 6]] (Some ''bins.pkl'')
  = Inr (\<lparr>files = [''bins.pkl'' \<mapsto> Pickled \<lparr>snap_proportions = Some [Fin (2/3), Fin (1/3)],
                 snap_centers = Some [[Fin 5], [Fin 0]], snap_n = Some 3,
                 snap_mean = Scalar (Fin 0), snap_std = Scalar (Fin 1)\<rparr>], kmeans_runs = 1\<rparr>,
         \<lparr>number_of_bins = 2, significance_level = 1/20, whitening = False, ndb_eps = 1/1000000,
          training_mean = Scalar (Fin 0), training_std = Scalar (Fin 1),
          max_dims = None, bin_centers = Some [[Fin 5], [Fin 0]], bin_proportions = Some [Fin (2/3), Fin (1/3)],
          ref_sample_size = Some 3, cached_results = Map.empty\<rparr>)
   \<and> snapshots_descending empty_world
   \<and> np_ge (Fin (2/3)) (Fin (1/3))
   \<and> snapshots_descending
        \<lparr>files = [''bins.pkl'' \<mapsto> Pickled \<lparr>snap_proportions = Some [Fin (2/3), Fin (1/3)],
                 snap_centers = Some [[Fin 5], [Fin 0]], snap_n = Some 3,
                 snap_mean = Scalar (Fin 0), snap_std = Scalar (Fin 1)\<rparr>], kmeans_runs = 1\<rparr>"
proof -
  note r = construct_bins_descending[OF example_fit_ordered snapshots_descending_empty]
  from r have "\<forall>i. Suc i < length [Fin (2/3), Fin (1/3)]
                 \<longrightarrow> np_ge ([Fin (2/3), Fin (1/3)] ! i) ([Fin (2/3), Fin (1/3)] ! Suc i)"
    by simp
  then have "np_ge ([Fin (2/3), Fin (1/3)] ! 0) ([Fin (2/3), Fin (1/3)] ! Suc 0)"
    by (rule allE[where x = 0]) simp
  then show ?thesis
    using r example_fit_ordered snapshots_descending_empty by simp
qed

subsection \<open>Restoring a snapshot\<close>

text \<open>
  Claim C4. When the bins file named in the call exists and unpickles, \<open>construct_bins\<close>
  takes the proportions, the centers, the reference sample size and the whitening mean
  and std from it and returns: the result does not depend on the training samples or on
  the clustering primitive, and the world is as before (no run of the clustering was
  counted, nothing was written).
\<close>

theorem construct_bins_restores_snapshot:
  assumes "snapshot_at w bins_file = Some (Pickled bins)"
  shows "construct_bins e w st training_samples bins_file =
           Inr (w, st\<lparr>bin_proportions := snap_proportions bins,
                       bin_centers := snap_centers bins,
                       ref_sample_size := snap_n bins,
                       training_mean := snap_mean bins,
                       training_std := snap_std bins\<rparr>)"
  using assms by (simp add: construct_bins_def read_from_bins_file_pickled)


theorem construct_bins_restores_snapshot_witness:
  "snapshot_at
     \<lparr>files = [''bins.pkl'' \<mapsto> Pickled \<lparr>snap_proportions = Some [Fin (2/3), Fin (1/3)],
                 snap_centers = Some [[Fin 5], [Fin 0]], snap_n = Some 3,
                 snap_mean = Scalar (Fin 0), snap_std = Scalar (Fin 1)\<rparr>], kmeans_runs = 0\<rparr>
     (Some ''bins.pkl'')
   = Some (Pickled \<lparr>snap_proportions = Some [Fin (2/3), Fin (1/3)],
                 snap_centers = Some [[Fin 5], [Fin 0]], snap_n = Some 3,
                 snap_mean = Scalar (Fin 0), snap_std = Scalar (Fin 1)\<rparr>)
   \<and> construct_bins failing_env
     \<lparr>files = [''bins.pkl'' \<mapsto> Pickled \<lparr>snap_proportions = Some [Fin (2/3), Fin (1/3)],
                 snap_centers = Some [[Fin 5], [Fin 0]], snap_n = Some 3,
                 snap_mean = Scalar (Fin 0), snap_std = Scalar (Fin 1)\<rparr>], kmeans_runs = 0\<rparr>
     \<lparr>number_of_bins = 7, significance_level = 1/20, whitening = True, ndb_eps = 1/1000000,
      training_mean = Scalar (Fin 0), training_std = Scalar (Fin 1),
      max_dims = None, bin_centers = None, bin_proportions = None,
      ref_sample_size = None, cached_results = Map.empty\<rparr>
     [[Fin 9, Fin 9]] (Some ''bins.pkl'')
   = Inr (\<lparr>files = [''bins.pkl'' \<mapsto> Pickled \<lparr>snap_proportions = Some [Fin (2/3), Fin (1/3)],
                 snap_centers = Some [[Fin 5], [Fin 0]], snap_n = Some 3,
                 snap_mean = Scalar (Fin 0), snap_std = Scalar (Fin 1)\<rparr>], kmeans_runs = 0\<rparr>,
          \<lparr>number_of_bins = 7, significance_level = 1/20, whitening = True, ndb_eps = 1/1000000,
           training_mean = Scalar (Fin 0), training_std = Scalar (Fin 1),
           max_dims = None, bin_centers = Some [[Fin 5], [Fin 0]],
           bin_proportions = Some [Fin (2/3), Fin (1/3)],
           ref_sample_size = Some 3, cached_results = Map.empty\<rparr>)"
proof -
  have s: "snapshot_at
     \<lparr>files = [''bins.pkl'' \<mapsto> Pickled \<lparr>snap_proportions = Some [Fin (2/3), Fin (1/3)],
                 snap_centers = Some [[Fin 5], [Fin 0]], snap_n = Some 3,
                 snap_mean = Scalar (Fin 0), snap_std = Scalar (Fin 1)\<rparr>], kmeans_runs = 0\<rparr>
     (Some ''bins.pkl'')
   = Some (Pickled \<lparr>snap_proportions = Some [Fin (2/3), Fin (1/3)],
                 snap_centers = Some [[Fin 5], [Fin 0]], snap_n = Some 3,
                 snap_mean = Scalar (Fin 0), snap_std = Scalar (Fin 1)\<rparr>)"
    by (simp add: snapshot_at_def)
  show ?thesis
    using construct_bins_restores_snapshot[OF s, of failing_env
      "\<lparr>number_of_bins = 7, significance_level = 1/20, whitening = True, ndb_eps = 1/1000000,
      training_mean = Scalar (Fin 0), training_std = Scalar (Fin 1),
      max_dims = None, bin_centers = None, bin_proportions = None,
      ref_sample_size = None, cached_results = Map.empty\<rparr>" "[[Fin 9, Fin 9]]"] s
    by simp
qed

section \<open>Properties of the evaluation\<close>

lemma np_not_ge_iff: "\<not> isnan x \<Longrightarrow> \<not> isnan y \<Longrightarrow> (\<not> np_ge x y) = np_lt x y"
  by (cases x; cases y) (auto simp: np_ge_def)

lemma np_ge_refl: "\<not> isnan x \<Longrightarrow> np_ge x x"
  by (cases x) (auto simp: np_ge_def)

lemma np_lt_ge_trans: "np_lt x y \<Longrightarrow> np_ge z y \<Longrightarrow> np_lt x z"
  by (cases x; cases y; cases z) (auto simp: np_ge_def)

lemma np_lt_imp_ge: "np_lt x y \<Longrightarrow> np_ge y x"
  by (simp add: np_ge_def)

lemma argmin_scan_spec:
  assumes "\<forall>x \<in> set (pre @ xs). \<not> isnan x" and "mi < length pre"
    and "\<forall>j<length pre. np_ge (pre ! j) (pre ! mi)"
    and "\<forall>j<mi. np_lt (pre ! mi) (pre ! j)"
  shows "argmin_scan (pre ! mi) mi (length pre) xs < length (pre @ xs)
       \<and> (\<forall>j<length (pre @ xs).
             np_ge ((pre @ xs) ! j) ((pre @ xs) ! argmin_scan (pre ! mi) mi (length pre) xs))
       \<and> (\<forall>j<argmin_scan (pre ! mi) mi (length pre) xs.
             np_lt ((pre @ xs) ! argmin_scan (pre ! mi) mi (length pre) xs) ((pre @ xs) ! j))"
  using assms
proof (induction xs arbitrary: pre mi)
  case Nil
  then show ?case by simp
next
  case (Cons x xs)
  have nx: "\<not> isnan x" and nmi: "\<not> isnan (pre ! mi)"
    using Cons.prems(1,2) by simp_all
  let ?pre = "pre @ [x]"
  have nn: "\<forall>y \<in> set (?pre @ xs). \<not> isnan y" using Cons.prems(1) by simp
  show ?case
  proof (cases "np_ge x (pre ! mi)")
    case True
    have a: "mi < length ?pre" using Cons.prems(2) by simp
    have b: "\<forall>j<length ?pre. np_ge (?pre ! j) (?pre ! mi)"
      using Cons.prems(2,3) True by (auto simp: nth_append less_Suc_eq)
    have c: "\<forall>j<mi. np_lt (?pre ! mi) (?pre ! j)"
      using Cons.prems(2,4) by (auto simp: nth_append)
    have "?pre ! mi = pre ! mi" using Cons.prems(2) by (simp add: nth_append)
    then show ?thesis
      using Cons.IH[OF nn a b c] True by simp
  next
    case False
    then have lt: "np_lt x (pre ! mi)" using np_not_ge_iff[OF nx nmi] by simp
    have a: "length pre < length ?pre" by simp
    have b: "\<forall>j<length ?pre. np_ge (?pre ! j) (?pre ! length pre)"
      using Cons.prems(3) lt nx
      by (auto simp: nth_append less_Suc_eq np_ge_refl intro: np_lt_imp_ge np_lt_ge_trans)
    have c: "\<forall>j<length pre. np_lt (?pre ! length pre) (?pre ! j)"
      using Cons.prems(3) lt by (auto simp: nth_append intro: np_lt_ge_trans)
    show ?thesis
      using Cons.IH[OF nn a b c] False nx by simp
  qed
qed

lemma np_argmin_spec:
  assumes "xs \<noteq> []" and "\<forall>x \<in> set xs. \<not> isnan x"
  shows "np_argmin xs < length xs
       \<and> (\<forall>j<length xs. np_ge (xs ! j) (xs ! np_argmin xs))
       \<and> (\<forall>j<np_argmin xs. np_lt (xs ! np_argmin xs) (xs ! j))"
proof -
  obtain x rest where xs: "xs = x # rest" using assms(1) by (cases xs) auto
  have "argmin_scan ([x] ! 0) 0 (length [x]) rest < length ([x] @ rest)
       \<and> (\<forall>j<length ([x] @ rest).
             np_ge (([x] @ rest) ! j) (([x] @ rest) ! argmin_scan ([x] ! 0) 0 (length [x]) rest))
       \<and> (\<forall>j<argmin_scan ([x] ! 0) 0 (length [x]) rest.
             np_lt (([x] @ rest) ! argmin_scan ([x] ! 0) 0 (length [x]) rest) (([x] @ rest) ! j))"
    using assms(2) xs by (intro argmin_scan_spec) (auto simp: np_ge_refl)
  then show ?thesis using assms(2) xs by simp
qed

lemma np_norm_l2:
  assumes "length u = length v"
  shows "np_norm (bcast np_sub (map Fin u) (map Fin v)) = Fin (l2_distance u v)"
proof -
  have "map (\<lambda>x. let a = np_abs x in np_mul a a) (bcast np_sub (map Fin u) (map Fin v))
      = map (\<lambda>(x, y). Fin ((x - y)\<^sup>2)) (zip u v)"
    using assms
    by (induction u v rule: list_induct2)
       (simp_all add: bcast_def np_sub_def Let_def power2_eq_square)
  then have "np_sum (map (\<lambda>x. let a = np_abs x in np_mul a a) (bcast np_sub (map Fin u) (map Fin v)))
      = Fin (\<Sum>(x, y) \<leftarrow> zip u v. (x - y)\<^sup>2)"
    using np_sum_Fin[of "\<lambda>(x, y). (x - y)\<^sup>2" "zip u v"] by (simp add: case_prod_unfold)
  moreover have "0 \<le> (\<Sum>(x, y) \<leftarrow> zip u v. (x - y)\<^sup>2)"
    by (intro sum_list_nonneg) auto
  ultimately show ?thesis by (simp add: np_norm_def l2_distance_def not_less)
qed

subsection \<open>An example run, and the shape of a result\<close>

lemma example_model_fit:
  "NDB_init (example_env [0, 0, 1, 1]) empty_world (Some [[Fin 0], [Fin 0], [Fin 4], [Fin 4]])
     2 (1/20) False None None
   = Inr (\<lparr>files = Map.empty, kmeans_runs = 1\<rparr>, example_model)"
  by (simp add: fit_defs upt_rec example_model_def)

lemmas eval_defs = evaluate_def calculate_bin_proportions_def whiten_def ncols_def bcast_def
  np_norm_def np_sub_def np_ge_def unique_counts_def two_proportions_z_test_def
  jensen_shannon_divergence_def kl_divergence_def broadcastable_def np_ne_def np_gt_def
  std_normal_cdf_0 Let_def

lemma example_evaluate_unlabelled:
  "evaluate std_normal_cdf example_model example_query None = Inr (example_result, example_model)"
  by (simp add: eval_defs example_model_def example_query_def example_result_def)

lemma example_evaluate_labelled:
  "evaluate std_normal_cdf example_model example_query (Some ''Test'')
   = Inr (example_result, example_model\<lparr>cached_results := [''Test'' \<mapsto> example_result]\<rparr>)"
  by (simp add: eval_defs example_model_def example_query_def example_result_def numeral_2_eq_2)


lemma example_evaluate_empty_label:
  "evaluate std_normal_cdf example_model example_query (Some []) = Inr (example_result, example_model)"
  by (simp add: eval_defs example_model_def example_query_def example_result_def)

lemma mat_op_length [simp]: "length (mat_op f X a) = length X"
  by (cases a) simp_all

lemma whiten_length: "whiten mu sigma X = Inr W \<Longrightarrow> length W = length X"
  by (auto simp: whiten_def Let_def split: if_splits)

lemma calculate_bin_proportions_labels:
  assumes "calculate_bin_proportions st X = Inr (qp, qa)"
    and "bin_centers st = Some C"
    and "whiten (training_mean st) (training_std st) X = Inr W"
  shows "C \<noteq> [] \<and> qa = map (\<lambda>x. np_argmin (map (\<lambda>c. np_norm (bcast np_sub x c)) C)) W"
  using assms
  by (auto simp: calculate_bin_proportions_def Let_def split: if_splits prod.splits)

lemma evaluate_result:
  assumes "evaluate Phi st X label = Inr (res, st')"
  shows "\<exists>qp. calculate_bin_proportions st X = Inr (qp, res_Bin_Assignment res)"
    and "st' = (case label of None \<Rightarrow> st
                | Some l \<Rightarrow> if l = [] then st
                            else st\<lparr>cached_results := (cached_results st)(l \<mapsto> res)\<rparr>)"
  using assms
  by (auto simp: evaluate_def Let_def split: sum.splits prod.splits option.splits if_splits)

lemma evaluate_ignores_cache:
  "map_sum id fst (evaluate Phi (st\<lparr>cached_results := c\<rparr>) X label)
   = map_sum id fst (evaluate Phi st X label)"
  by (auto simp: evaluate_def calculate_bin_proportions_def Let_def
      split: sum.splits prod.splits option.splits if_splits)

lemma example_whitened:
  "whiten (training_mean example_model) (training_std example_model) example_query
   = Inr [map Fin [2], map Fin [6]]"
  by (simp add: whiten_def example_model_def example_query_def ncols_def np_sub_def)

lemma example_centers: "bin_centers example_model = Some [[Fin 0], [Fin 4]]"
  by (simp add: example_model_def)


subsection \<open>Assignment to the nearest center\<close>

text \<open>
  Claim C8. In \<open>evaluate\<close>, a query sample whose whitened vector \<open>u\<close> is finite is assigned,
  among finite bin centers of the same width, to a center at minimum Euclidean distance
  from \<open>u\<close>, and every center with a lower index is strictly farther away: of several
  centers at the same minimal distance the one with the lowest index is taken.
\<close>

theorem evaluate_assigns_nearest_center:
  assumes "evaluate Phi st X label = Inr (res, st')"
    and "bin_centers st = Some C"
    and "whiten (training_mean st) (training_std st) X = Inr W"
    and "i < length X"
    and "W ! i = map Fin u"
    and "\<forall>c \<in> set C. list_all isfinite c \<and> length c = length u"
  shows "res_Bin_Assignment res ! i < length C
       \<and> (\<forall>j<length C. l2_distance u (map fin_val (C ! (res_Bin_Assignment res ! i)))
                          \<le> l2_distance u (map fin_val (C ! j)))
       \<and> (\<forall>j<res_Bin_Assignment res ! i.
             l2_distance u (map fin_val (C ! (res_Bin_Assignment res ! i)))
               < l2_distance u (map fin_val (C ! j)))"
proof -
  let ?a = "res_Bin_Assignment res ! i"
  let ?D = "map (\<lambda>c. np_norm (bcast np_sub (W ! i) c)) C"
  obtain qp where "calculate_bin_proportions st X = Inr (qp, res_Bin_Assignment res)"
    using evaluate_result(1)[OF assms(1)] by blast
  from calculate_bin_proportions_labels[OF this assms(2,3)]
  have C: "C \<noteq> []"
    and qa: "res_Bin_Assignment res = map (\<lambda>x. np_argmin (map (\<lambda>c. np_norm (bcast np_sub x c)) C)) W"
    by simp_all
  have iW: "i < length W" using whiten_length[OF assms(3)] assms(4) by simp
  have a: "?a = np_argmin ?D" using qa iW by simp
  have Dj: "?D ! j = Fin (l2_distance u (map fin_val (C ! j)))" if j: "j < length C" for j
  proof -
    have cj: "list_all isfinite (C ! j)" "length (C ! j) = length u"
      using assms(6) j by simp_all
    have "np_norm (bcast np_sub (map Fin u) (map Fin (map fin_val (C ! j))))
            = Fin (l2_distance u (map fin_val (C ! j)))"
      using cj(2) by (intro np_norm_l2) simp
    then show ?thesis
      using finite_list_map_Fin[OF cj(1)] j assms(5) by simp
  qed
  have nn: "\<forall>x \<in> set ?D. \<not> isnan x"
  proof
    fix x assume "x \<in> set ?D"
    then obtain j where "j < length ?D" "x = ?D ! j" by (metis in_set_conv_nth)
    then show "\<not> isnan x" using Dj[of j] by simp
  qed
  have ne: "?D \<noteq> []" using C by simp
  have lenD: "length ?D = length C" by simp
  note spec = np_argmin_spec[OF ne nn, unfolded lenD]
  have al: "?a < length C" using spec a by (simp only:)
  have le: "l2_distance u (map fin_val (C ! ?a)) \<le> l2_distance u (map fin_val (C ! j))"
    if j: "j < length C" for j
  proof -
    have "np_ge (?D ! j) (?D ! np_argmin ?D)" using spec j by blast
    then have "np_ge (Fin (l2_distance u (map fin_val (C ! j))))
                     (Fin (l2_distance u (map fin_val (C ! ?a))))"
      unfolding a[symmetric] Dj[OF j] Dj[OF al] .
    then show ?thesis by (auto simp: np_ge_def)
  qed
  have lt: "l2_distance u (map fin_val (C ! ?a)) < l2_distance u (map fin_val (C ! j))"
    if j: "j < ?a" for j
  proof -
    have jc: "j < length C" using j al by simp
    have "j < np_argmin ?D" using j a by (simp only:)
    then have "np_lt (?D ! np_argmin ?D) (?D ! j)" using spec by blast
    then have "np_lt (Fin (l2_distance u (map fin_val (C ! ?a))))
                     (Fin (l2_distance u (map fin_val (C ! j))))"
      unfolding a[symmetric] Dj[OF jc] Dj[OF al] .
    then show ?thesis by simp
  qed
  show ?thesis using al le lt by blast
qed


theorem evaluate_assigns_nearest_center_witness:
  "evaluate std_normal_cdf example_model example_query None = Inr (example_result, example_model)
   \<and> res_Bin_Assignment example_result = [0, 1]
   \<and> l2_distance [2] [0] \<le> l2_distance [2] [4]
   \<and> l2_distance [6] [4] < l2_distance [6] [0]"
proof -
  have fin: "\<forall>c \<in> set [[Fin 0], [Fin 4]]. list_all isfinite c \<and> length c = length [2::real]"
            "\<forall>c \<in> set [[Fin 0], [Fin 4]]. list_all isfinite c \<and> length c = length [6::real]"
    by simp_all
  have ra: "res_Bin_Assignment example_result = [0, 1]" by (simp add: example_result_def)
  have i0: "0 < length example_query" and i1: "1 < length example_query"
    by (simp_all add: example_query_def)
  have w0: "[map Fin [2], map Fin [6]] ! 0 = map Fin [2]"
    and w1: "[map Fin [2], map Fin [6]] ! 1 = map Fin [6]"
    by simp_all
  note t0 = evaluate_assigns_nearest_center
              [OF example_evaluate_unlabelled example_centers example_whitened i0 w0 fin(1)]
  note t1 = evaluate_assigns_nearest_center
              [OF example_evaluate_unlabelled example_centers example_whitened i1 w1 fin(2)]
  have a: "l2_distance [2] [0] \<le> l2_distance [2] [4]"
    using t0[THEN conjunct2, THEN conjunct1, rule_format, of 1] by (simp add: ra)
  have b: "l2_distance [6] [4] < l2_distance [6] [0]"
    using t1[THEN conjunct2, THEN conjunct2, rule_format, of 0] by (simp add: ra)
  show ?thesis using example_evaluate_unlabelled ra a b by simp
qed


subsection \<open>What an evaluation changes\<close>

text \<open>
  Claim C9. A call of \<open>evaluate\<close> that returns leaves the centers, the proportions, the
  reference sample size and the whitening mean and std as they were, and every other
  attribute but the results cache. With a label (a non-empty string: the condition is
  \<^verbatim>\<open>if model_label:\<close>) the cache holds the result under that label afterwards, whatever
  it held there before; without one the object is unchanged. The result itself does not
  depend on the cache. (An exception is raised before the only assignment.)
\<close>

theorem evaluate_changes_only_the_cache:
  assumes "evaluate Phi st X label = Inr (res, st')"
  shows "bin_centers st' = bin_centers st \<and> bin_proportions st' = bin_proportions st
       \<and> ref_sample_size st' = ref_sample_size st
       \<and> training_mean st' = training_mean st \<and> training_std st' = training_std st
       \<and> st' = st\<lparr>cached_results := cached_results st'\<rparr>
       \<and> (truthy label \<longrightarrow> (\<exists>l. label = Some l \<and> cached_results st' = (cached_results st)(l \<mapsto> res)))
       \<and> (\<not> truthy label \<longrightarrow> st' = st)
       \<and> (\<forall>c. map_sum id fst (evaluate Phi (st\<lparr>cached_results := c\<rparr>) X label) = Inr res)"
proof -
  have "map_sum id fst (evaluate Phi (st\<lparr>cached_results := c\<rparr>) X label) = Inr res" for c
    using evaluate_ignores_cache[where Phi = Phi and st = st and c = c and X = X and label = label]
          assms by simp
  then show ?thesis
    using evaluate_result(2)[OF assms] by (auto split: option.splits if_splits)
qed


theorem evaluate_changes_only_the_cache_witness:
  "evaluate std_normal_cdf example_model example_query (Some ''Test'')
     = Inr (example_result, example_model\<lparr>cached_results := [''Test'' \<mapsto> example_result]\<rparr>)
   \<and> truthy (Some ''Test'')
   \<and> bin_centers (example_model\<lparr>cached_results := [''Test'' \<mapsto> example_result]\<rparr>)
       = bin_centers example_model
   \<and> bin_proportions (example_model\<lparr>cached_results := [''Test'' \<mapsto> example_result]\<rparr>)
       = bin_proportions example_model
   \<and> map_sum id fst (evaluate std_normal_cdf example_model example_query (Some ''Test''))
       = Inr example_result"
proof -
  note t = evaluate_changes_only_the_cache[OF example_evaluate_labelled]
  have "map_sum id fst (evaluate std_normal_cdf
          (example_model\<lparr>cached_results := cached_results example_model\<rparr>) example_query (Some ''Test''))
       = Inr example_result"
    using t by blast
  then show ?thesis using t example_evaluate_labelled by simp
qed


text \<open>
  Claim C10. The empty string as label is treated as no label: the call behaves as the
  call without a label, and the object, with its results cache, is unchanged.
\<close>

theorem evaluate_empty_label_is_no_label:
  "evaluate Phi st X (Some []) = evaluate Phi st X None
   \<and> (\<forall>res st'. evaluate Phi st X (Some []) = Inr (res, st') \<longrightarrow> st' = st)"
proof -
  have "evaluate Phi st X (Some []) = evaluate Phi st X None"
    by (auto simp: evaluate_def Let_def split: sum.splits prod.splits option.splits)
  moreover have "st' = st" if "evaluate Phi st X (Some []) = Inr (res, st')" for res st'
    using evaluate_result(2)[OF that] by simp
  ultimately show ?thesis by blast
qed



theorem evaluate_empty_label_is_no_label_witness:
  "evaluate std_normal_cdf example_model example_query (Some []) = Inr (example_result, example_model)
   \<and> evaluate std_normal_cdf example_model example_query (Some [])
       = evaluate std_normal_cdf example_model example_query None"
  using evaluate_empty_label_is_no_label[of std_normal_cdf example_model example_query]
        example_evaluate_empty_label
  by simp

end
